theory Spec2Isabelle
  imports Complex_Main "HOL-Library.AList"
begin

section \<open>Data model\<close>

text \<open>
  The three scripts (\<^verbatim>\<open>LandUseMap\<close> in static/script.js, \<^verbatim>\<open>IndiaLandUseMap\<close> in the
  enhanced script, \<^verbatim>\<open>FRAWebGIS\<close> in static/fra_webgis_script.js) keep their state in
  object fields and in the page's DOM. A JavaScript object used as a dictionary is an
  association list of its own properties where the code iterates over it
  (\<^verbatim>\<open>Object.entries\<close>), and a map where it is only indexed. No result depends on the
  order of the entries (\<^verbatim>\<open>Object.entries\<close> lists integer-like keys first).
\<close>

text \<open>
  The dictionaries are plain objects, so \<^verbatim>\<open>obj[name]\<close> for a name that is no own
  property of \<^verbatim>\<open>obj\<close> goes on to \<^verbatim>\<open>Object.prototype\<close>: for the names below it gives a
  function (for \<^verbatim>\<open>__proto__\<close> the prototype object), which is truthy and is neither an
  array, nor a layer, nor a style. For any other name it gives \<^verbatim>\<open>undefined\<close>.
\<close>

definition objectPrototypeNames :: "string list" where
  "objectPrototypeNames =
     [''constructor'', ''__defineGetter__'', ''__defineSetter__'', ''hasOwnProperty'',
      ''__lookupGetter__'', ''__lookupSetter__'', ''isPrototypeOf'', ''propertyIsEnumerable'',
      ''toString'', ''valueOf'', ''__proto__'', ''toLocaleString'']"

definition inherited :: "string \<Rightarrow> bool" where
  "inherited name \<longleftrightarrow> name \<in> set objectPrototypeNames"

text \<open>
  What \<^verbatim>\<open>obj[name]\<close> gives: nothing (\<^verbatim>\<open>undefined\<close>, or a \<^verbatim>\<open>null\<close> stored under
  the name), a value inherited from \<^verbatim>\<open>Object.prototype\<close>, or the value stored under
  the name. \<open>obj\<close> holds the own properties whose value is not \<^verbatim>\<open>null\<close>.
\<close>

datatype 'a property = Absent | Inherited | Own 'a

definition jsGet :: "(string \<rightharpoonup> 'a) \<Rightarrow> string \<Rightarrow> 'a property" where
  "jsGet obj name =
     (case obj name of
        Some v \<Rightarrow> Own v
      | None \<Rightarrow> if inherited name then Inherited else Absent)"

type_synonym jsobject = "(string \<times> string) list"

text \<open>A GeoJSON feature: \<^verbatim>\<open>feature.properties\<close> maps property names to scalars.\<close>

record feature =
  geometry :: string
  properties :: jsobject

text \<open>
  Reading a property of a feature gives \<^verbatim>\<open>undefined\<close> when it is absent (\<open>None\<close>);
  the two properties the scripts group by, \<^verbatim>\<open>class\<close> and \<^verbatim>\<open>fra_type\<close>, are not names
  an object inherits. Used as a property key, \<^verbatim>\<open>undefined\<close> is the string "undefined".
\<close>

definition getProp :: "string \<Rightarrow> feature \<Rightarrow> string option" where
  "getProp name f = map_of (properties f) name"

definition propertyKey :: "string option \<Rightarrow> string" where
  "propertyKey v = (case v of None \<Rightarrow> ''undefined'' | Some s \<Rightarrow> s)"

text \<open>A string is truthy exactly when it is not empty; \<^verbatim>\<open>undefined\<close> is falsy.\<close>

definition truthy :: "string \<Rightarrow> bool" where
  "truthy v = (v \<noteq> [])"

definition truthyOpt :: "string option \<Rightarrow> bool" where
  "truthyOpt v = (case v of None \<Rightarrow> False | Some s \<Rightarrow> truthy s)"

section \<open>Styles and layers\<close>

record style =
  color :: string
  fillColor :: string
  fillOpacity :: rat
  weight :: nat

definition mkStyle :: "string \<Rightarrow> rat \<Rightarrow> nat \<Rightarrow> style" where
  "mkStyle c opacity w = \<lparr>color = c, fillColor = c, fillOpacity = opacity, weight = w\<rparr>"

text \<open>\<^verbatim>\<open>LandUseMap.classStyles\<close>.\<close>

definition LandUse_classStyles :: "(string \<times> style) list" where
  "LandUse_classStyles =
     [(''water'', mkStyle ''#0066cc'' (7 / 10) 2),
      (''forest'', mkStyle ''#00aa00'' (7 / 10) 2),
      (''agriculture'', mkStyle ''#ffaa00'' (7 / 10) 2)]"

text \<open>\<^verbatim>\<open>IndiaLandUseMap.classStyles\<close>.\<close>

definition India_classStyles :: "(string \<times> style) list" where
  "India_classStyles =
     [(''water'', mkStyle ''#0066cc'' (7 / 10) 2),
      (''forest_dense'', mkStyle ''#00aa00'' (7 / 10) 2),
      (''forest_open'', mkStyle ''#66cc00'' (7 / 10) 2),
      (''agriculture_irrigated'', mkStyle ''#ffaa00'' (7 / 10) 2),
      (''agriculture_rainfed'', mkStyle ''#ffcc66'' (7 / 10) 2),
      (''urban'', mkStyle ''#cc0000'' (7 / 10) 2),
      (''grassland'', mkStyle ''#99cc00'' (7 / 10) 2),
      (''wasteland'', mkStyle ''#cc9900'' (7 / 10) 2),
      (''wetland'', mkStyle ''#006699'' (7 / 10) 2),
      (''mangrove'', mkStyle ''#009966'' (7 / 10) 2),
      (''fra_area'', mkStyle ''#9900cc'' (8 / 10) 3)]"

text \<open>\<^verbatim>\<open>FRAWebGIS.fraTypeStyles\<close>.\<close>

definition fraTypeStyles :: "(string \<times> style) list" where
  "fraTypeStyles =
     [(''IFR'', mkStyle ''#007bff'' (7 / 10) 2),
      (''CFR'', mkStyle ''#28a745'' (7 / 10) 2),
      (''CR'', mkStyle ''#ffc107'' (7 / 10) 2)]"

text \<open>
  The style option given to \<^verbatim>\<open>L.geoJSON\<close>; \<open>None\<close> is no style: \<^verbatim>\<open>undefined\<close>, or the
  value an inherited name gives. A style object and an inherited value are truthy, so
  \<^verbatim>\<open>a || b\<close> is \<^verbatim>\<open>b\<close> exactly when the lookup \<^verbatim>\<open>a\<close> gives \<^verbatim>\<open>undefined\<close>.
\<close>

definition LandUse_styleFor :: "string \<Rightarrow> style option" where
  "LandUse_styleFor className =
     (case jsGet (map_of LandUse_classStyles) className of
        Own st \<Rightarrow> Some st
      | Inherited \<Rightarrow> None
      | Absent \<Rightarrow> None)"

definition India_styleFor :: "string \<Rightarrow> style option" where
  "India_styleFor className =
     (case jsGet (map_of India_classStyles) className of
        Own st \<Rightarrow> Some st
      | Inherited \<Rightarrow> None
      | Absent \<Rightarrow> map_of India_classStyles ''fra_area'')"

definition FRA_styleFor :: "string \<Rightarrow> style option" where
  "FRA_styleFor fraType =
     (case jsGet (map_of fraTypeStyles) fraType of
        Own st \<Rightarrow> Some st
      | Inherited \<Rightarrow> None
      | Absent \<Rightarrow> map_of fraTypeStyles ''IFR'')"

text \<open>
  A layer object made by \<^verbatim>\<open>L.geoJSON(features, {style: ...})\<close>. The map widget is
  Leaflet's, outside the repository: \<open>onMap\<close> records whether this layer object is
  attached to \<^verbatim>\<open>this.map\<close>, which is what \<^verbatim>\<open>map.hasLayer(layer)\<close> answers;
  \<^verbatim>\<open>map.addLayer\<close> attaches it (and leaves an attached layer as it is),
  \<^verbatim>\<open>map.removeLayer\<close> detaches it. Given an object that is no layer,
  \<^verbatim>\<open>map.hasLayer\<close> answers false, \<^verbatim>\<open>map.removeLayer\<close> does nothing and
  \<^verbatim>\<open>map.addLayer\<close> raises an error (\<open>NotALayer\<close> below).
\<close>

record layer =
  lfeatures :: "feature list"
  lstyle :: "style option"
  onMap :: bool

definition geoJSON :: "feature list \<Rightarrow> style option \<Rightarrow> layer" where
  "geoJSON fs st = \<lparr>lfeatures = fs, lstyle = st, onMap = False\<rparr>"

definition hasLayer :: "layer \<Rightarrow> bool" where
  "hasLayer l = onMap l"

definition addLayer :: "layer \<Rightarrow> layer" where
  "addLayer l = l\<lparr>onMap := True\<rparr>"

definition removeLayer :: "layer \<Rightarrow> layer" where
  "removeLayer l = l\<lparr>onMap := False\<rparr>"

section \<open>Page state\<close>

text \<open>What a handler reports: the exception it caught.\<close>

datatype exn =
  NetworkError
  | SyntaxError
  | HttpError nat
  | ServerError string
  | InvalidFormat
  | TypeError
  | NotALayer

text \<open>
  The fields of the object and the part of the DOM the handlers read and write:
  \<open>layers\<close> is \<^verbatim>\<open>this.layers\<close> (category to layer object; \<open>None\<close> for an absent or
  \<^verbatim>\<open>null\<close> entry), \<open>checkboxes\<close> gives the checked state of the checkbox elements by
  element id, \<open>shown\<close> the number displayed in the counter elements by element id
  (\<open>None\<close>: no such element), \<open>layerControls\<close> the keys of the items inside the
  \<^verbatim>\<open>layer-controls\<close> container, \<open>errors\<close> what was reported so far.
\<close>

record page =
  layers :: "string \<rightharpoonup> layer"
  currentFilters :: jsobject
  checkboxes :: "string \<rightharpoonup> bool"
  shown :: "string \<rightharpoonup> nat"
  layerControls :: "string list"
  errors :: "exn list"

text \<open>
  A payload of the data endpoints, \<^verbatim>\<open>{features: [...], error?: string}\<close>; \<open>pfeatures\<close>
  is \<open>None\<close> when \<^verbatim>\<open>features\<close> is missing or is not an array.
\<close>

record payload =
  perror :: "string option"
  pfeatures :: "feature list option"

text \<open>
  What \<^verbatim>\<open>await fetch(...)\<close> followed by \<^verbatim>\<open>await response.json()\<close> gives: the fetch
  rejects, or there is a response with its \<^verbatim>\<open>ok\<close> flag, its status and its body
  (\<open>None\<close>: the body is not JSON and \<^verbatim>\<open>json()\<close> rejects).
\<close>

datatype 'a fetched = Rejected | Response bool nat "'a option"

definition errorMessage :: "payload \<Rightarrow> string" where
  "errorMessage data = (case perror data of None \<Rightarrow> [] | Some msg \<Rightarrow> msg)"

definition showError :: "exn \<Rightarrow> page \<Rightarrow> page" where
  "showError e s = s\<lparr>errors := errors s @ [e]\<rparr>"

definition updateFeatureCount :: "nat \<Rightarrow> page \<Rightarrow> page" where
  "updateFeatureCount n s =
     (case shown s ''feature-count'' of
        None \<Rightarrow> s
      | Some _ \<Rightarrow> s\<lparr>shown := (shown s)(''feature-count'' \<mapsto> n)\<rparr>)"

text \<open>
  The head of \<^verbatim>\<open>processData\<close> and \<^verbatim>\<open>processClaimsData\<close>: every layer of
  \<^verbatim>\<open>this.layers\<close> that is on the map is removed from it, then \<^verbatim>\<open>this.layers = {}\<close>.
  The detached layer objects are no longer referenced.
\<close>

definition clearLayers :: "page \<Rightarrow> page" where
  "clearLayers s = s\<lparr>layers := Map.empty\<rparr>"

section \<open>Grouping features by category\<close>

type_synonym buckets = "(string \<times> feature list) list"

text \<open>
  \<^verbatim>\<open>if (!featuresByClass[className]) featuresByClass[className] = [];\<close>
  \<^verbatim>\<open>featuresByClass[className].push(feature);\<close>
  A name with no bucket gets an empty one first, unless it is an inherited name: what
  the object inherits is truthy and has no \<^verbatim>\<open>push\<close>, so the call throws a
  \<^verbatim>\<open>TypeError\<close> (\<open>None\<close>).
\<close>

definition groupStep :: "string \<Rightarrow> buckets \<Rightarrow> feature \<Rightarrow> buckets option" where
  "groupStep name acc f =
     (let className = propertyKey (getProp name f)
      in case jsGet (map_of acc) className of
           Own _ \<Rightarrow> Some (AList.map_entry className (\<lambda>b. b @ [f]) acc)
         | Inherited \<Rightarrow> None
         | Absent \<Rightarrow>
             Some (AList.map_entry className (\<lambda>b. b @ [f]) (AList.update className [] acc)))"

text \<open>\<^verbatim>\<open>features.forEach\<close> with a callback that may throw: the loop ends at the throw.\<close>

fun forEach :: "(buckets \<Rightarrow> feature \<Rightarrow> buckets option) \<Rightarrow> buckets \<Rightarrow> feature list \<Rightarrow> buckets option" where
  "forEach step acc [] = Some acc"
| "forEach step acc (f # fs) =
     (case step acc f of
        None \<Rightarrow> None
      | Some acc' \<Rightarrow> forEach step acc' fs)"

definition groupFeatures :: "string \<Rightarrow> feature list \<Rightarrow> buckets option" where
  "groupFeatures name fs = forEach (groupStep name) [] fs"

text \<open>
  \<^verbatim>\<open>LandUseMap.processData\<close> starts from the three buckets it knows and pushes a feature
  only \<^verbatim>\<open>if (featuresByClass[className])\<close>, which an inherited name passes too.
\<close>

definition LandUse_groupStep :: "buckets \<Rightarrow> feature \<Rightarrow> buckets option" where
  "LandUse_groupStep acc f =
     (let className = propertyKey (getProp ''class'' f)
      in case jsGet (map_of acc) className of
           Own _ \<Rightarrow> Some (AList.map_entry className (\<lambda>b. b @ [f]) acc)
         | Inherited \<Rightarrow> None
         | Absent \<Rightarrow> Some acc)"

definition LandUse_groupFeatures :: "feature list \<Rightarrow> buckets option" where
  "LandUse_groupFeatures fs =
     forEach LandUse_groupStep [(''water'', []), (''forest'', []), (''agriculture'', [])] fs"

section \<open>IndiaLandUseMap\<close>

text \<open>
  One round of the loop over \<^verbatim>\<open>Object.entries(featuresByClass)\<close> in
  \<^verbatim>\<open>IndiaLandUseMap.processData\<close>: the layer is built, attached when the checkbox
  \<^verbatim>\<open>layer-<class>\<close> exists and is checked, and the counter \<^verbatim>\<open>count-<class>\<close>, when it
  exists, shows the number of features.
\<close>

definition India_createLayer :: "page \<Rightarrow> string \<times> feature list \<Rightarrow> page" where
  "India_createLayer s entry =
     (case entry of (className, fs) \<Rightarrow>
        if length fs > 0 then
          let l = geoJSON fs (India_styleFor className);
              s1 = s\<lparr>layers := (layers s)(className \<mapsto> l)\<rparr>;
              s2 = (if checkboxes s1 (''layer-'' @ className) = Some True
                    then s1\<lparr>layers := (layers s1)(className \<mapsto> addLayer l)\<rparr>
                    else s1)
          in (case shown s2 (''count-'' @ className) of
                None \<Rightarrow> s2
              | Some _ \<Rightarrow> s2\<lparr>shown := (shown s2)(''count-'' @ className \<mapsto> length fs)\<rparr>)
        else s)"

text \<open>
  \<^verbatim>\<open>IndiaLandUseMap.processData\<close>. The result is the exception thrown, if any, and the
  state then: \<^verbatim>\<open>geojsonData.features.forEach\<close> throws a \<^verbatim>\<open>TypeError\<close> when
  \<^verbatim>\<open>features\<close> is not an array or the grouping throws, after the layers were cleared.
\<close>

definition India_processData :: "page \<Rightarrow> payload \<Rightarrow> exn option \<times> page" where
  "India_processData s geojsonData =
     (let s1 = clearLayers s
      in case pfeatures geojsonData of
           None \<Rightarrow> (Some TypeError, s1)
         | Some fs \<Rightarrow>
             (case groupFeatures ''class'' fs of
                None \<Rightarrow> (Some TypeError, s1)
              | Some featuresByClass \<Rightarrow> (None, foldl India_createLayer s1 featuresByClass)))"

text \<open>
  \<^verbatim>\<open>IndiaLandUseMap.loadData\<close> from the point where its fetch has settled: the body of
  the \<^verbatim>\<open>try\<close> after the two \<^verbatim>\<open>await\<close>s, and the \<^verbatim>\<open>catch\<close>. It runs without
  interruption. \<^verbatim>\<open>response.ok\<close> is not looked at.
\<close>

definition India_loadData_resume :: "page \<Rightarrow> payload fetched \<Rightarrow> page" where
  "India_loadData_resume s r =
     (case r of
        Rejected \<Rightarrow> showError NetworkError s
      | Response ok status None \<Rightarrow> showError SyntaxError s
      | Response ok status (Some data) \<Rightarrow>
          if truthyOpt (perror data)
          then showError (ServerError (errorMessage data)) s
          else (case India_processData s data of
                  (Some e, s') \<Rightarrow> showError e s'
                | (None, s') \<Rightarrow>
                    (case pfeatures data of
                       None \<Rightarrow> showError TypeError s'
                     | Some fs \<Rightarrow> updateFeatureCount (length fs) s')))"

text \<open>
  \<^verbatim>\<open>IndiaLandUseMap.toggleLayer\<close>: the exception raised, if any, and the state then.
  \<^verbatim>\<open>if (layer)\<close> lets a layer and an inherited value through.
\<close>

definition India_toggleLayer :: "string \<Rightarrow> bool \<Rightarrow> page \<Rightarrow> exn option \<times> page" where
  "India_toggleLayer layerName visible s =
     (case jsGet (layers s) layerName of
        Absent \<Rightarrow> (None, s)
      | Inherited \<Rightarrow> if visible then (Some NotALayer, s) else (None, s)
      | Own l \<Rightarrow>
          if visible then (None, s\<lparr>layers := (layers s)(layerName \<mapsto> addLayer l)\<rparr>)
          else (None, s\<lparr>layers := (layers s)(layerName \<mapsto> removeLayer l)\<rparr>))"

text \<open>
  \<^verbatim>\<open>IndiaLandUseMap.loadLayers\<close> from the point where its fetch has settled. The
  container is emptied and gets one item per key of the answer: a checkbox
  \<^verbatim>\<open>layer-<key>\<close>, checked when the layer is marked visible, and a counter
  \<^verbatim>\<open>count-<key>\<close> showing 0. A failure is logged to the console only.
\<close>

record layer_info =
  lname :: string
  lvisible :: bool

definition clearLayerControls :: "page \<Rightarrow> page" where
  "clearLayerControls s =
     s\<lparr>checkboxes := checkboxes s |` (- ((\<lambda>k. ''layer-'' @ k) ` set (layerControls s))),
       shown := shown s |` (- ((\<lambda>k. ''count-'' @ k) ` set (layerControls s))),
       layerControls := []\<rparr>"

definition addLayerControl :: "page \<Rightarrow> string \<times> layer_info \<Rightarrow> page" where
  "addLayerControl s item =
     (case item of (key, info) \<Rightarrow>
        s\<lparr>checkboxes := (checkboxes s)(''layer-'' @ key \<mapsto> lvisible info),
          shown := (shown s)(''count-'' @ key \<mapsto> 0),
          layerControls := layerControls s @ [key]\<rparr>)"

definition India_loadLayers_resume :: "page \<Rightarrow> ((string \<times> layer_info) list) fetched \<Rightarrow> page" where
  "India_loadLayers_resume s r =
     (case r of
        Rejected \<Rightarrow> s
      | Response ok status None \<Rightarrow> s
      | Response ok status (Some infos) \<Rightarrow> foldl addLayerControl (clearLayerControls s) infos)"

section \<open>FRAWebGIS\<close>

text \<open>
  \<^verbatim>\<open>String.prototype.toLowerCase\<close> is a parameter \<open>lower\<close> of the functions that call
  it, and every result holds for any \<open>lower\<close>. The examples, whose keys are made of
  ASCII characters, take for it the lowering of the letters A to Z.
\<close>

definition lowerChar :: "char \<Rightarrow> char" where
  "lowerChar c =
     (case map_of (zip ''ABCDEFGHIJKLMNOPQRSTUVWXYZ'' ''abcdefghijklmnopqrstuvwxyz'') c of
        Some l \<Rightarrow> l
      | None \<Rightarrow> c)"

definition asciiLowerCase :: "string \<Rightarrow> string" where
  "asciiLowerCase str = map lowerChar str"

text \<open>
  One round of the loop over \<^verbatim>\<open>Object.entries(featuresByType)\<close> in
  \<^verbatim>\<open>FRAWebGIS.processClaimsData\<close>; the checkbox is \<^verbatim>\<open>layer-<fra type in lower case>\<close>.
\<close>

definition FRA_createLayer :: "(string \<Rightarrow> string) \<Rightarrow> page \<Rightarrow> string \<times> feature list \<Rightarrow> page" where
  "FRA_createLayer lower s entry =
     (case entry of (fraType, fs) \<Rightarrow>
        if length fs > 0 then
          let l = geoJSON fs (FRA_styleFor fraType);
              s1 = s\<lparr>layers := (layers s)(fraType \<mapsto> l)\<rparr>
          in if checkboxes s1 (''layer-'' @ lower fraType) = Some True
             then s1\<lparr>layers := (layers s1)(fraType \<mapsto> addLayer l)\<rparr>
             else s1
        else s)"

definition FRA_processClaimsData :: "(string \<Rightarrow> string) \<Rightarrow> page \<Rightarrow> payload \<Rightarrow> exn option \<times> page" where
  "FRA_processClaimsData lower s geojsonData =
     (let s1 = clearLayers s
      in case pfeatures geojsonData of
           None \<Rightarrow> (Some TypeError, s1)
         | Some fs \<Rightarrow>
             (case groupFeatures ''fra_type'' fs of
                None \<Rightarrow> (Some TypeError, s1)
              | Some featuresByType \<Rightarrow> (None, foldl (FRA_createLayer lower) s1 featuresByType)))"

text \<open>
  \<^verbatim>\<open>FRAWebGIS.loadClaims\<close> from the point where its fetch has settled. It throws on a
  response that is not \<^verbatim>\<open>ok\<close>, on a truthy \<^verbatim>\<open>data.error\<close>, and on a payload whose
  \<^verbatim>\<open>features\<close> is missing or not an array, all before \<^verbatim>\<open>processClaimsData\<close>.
\<close>

definition FRA_loadClaims_resume :: "(string \<Rightarrow> string) \<Rightarrow> page \<Rightarrow> payload fetched \<Rightarrow> page" where
  "FRA_loadClaims_resume lower s r =
     (case r of
        Rejected \<Rightarrow> showError NetworkError s
      | Response ok status body \<Rightarrow>
          if \<not> ok then showError (HttpError status) s
          else (case body of
                  None \<Rightarrow> showError SyntaxError s
                | Some data \<Rightarrow>
                    if truthyOpt (perror data)
                    then showError (ServerError (errorMessage data)) s
                    else (case pfeatures data of
                            None \<Rightarrow> showError InvalidFormat s
                          | Some fs \<Rightarrow>
                              (case FRA_processClaimsData lower s data of
                                 (Some e, s') \<Rightarrow> showError e s'
                               | (None, s') \<Rightarrow> updateFeatureCount (length fs) s'))))"

text \<open>\<^verbatim>\<open>FRAWebGIS.toggleLayer\<close>: the exception raised, if any, and the state then.\<close>

definition FRA_toggleLayer :: "string \<Rightarrow> bool \<Rightarrow> page \<Rightarrow> exn option \<times> page" where
  "FRA_toggleLayer fraType visible s =
     (case jsGet (layers s) fraType of
        Absent \<Rightarrow> (None, s)
      | Inherited \<Rightarrow> if visible then (Some NotALayer, s) else (None, s)
      | Own l \<Rightarrow>
          if visible then
            (if \<not> hasLayer l then (None, s\<lparr>layers := (layers s)(fraType \<mapsto> addLayer l)\<rparr>)
             else (None, s))
          else
            (if hasLayer l then (None, s\<lparr>layers := (layers s)(fraType \<mapsto> removeLayer l)\<rparr>)
             else (None, s)))"

section \<open>LandUseMap\<close>

definition LandUse_createLayer :: "page \<Rightarrow> string \<times> feature list \<Rightarrow> page" where
  "LandUse_createLayer s entry =
     (case entry of (className, fs) \<Rightarrow>
        if length fs > 0
        then s\<lparr>layers := (layers s)(className \<mapsto> geoJSON fs (LandUse_styleFor className))\<rparr>
        else s)"

definition showAllLayers :: "page \<Rightarrow> page" where
  "showAllLayers s = s\<lparr>layers := (\<lambda>k. map_option addLayer (layers s k))\<rparr>"

definition hideAllLayers :: "page \<Rightarrow> page" where
  "hideAllLayers s = s\<lparr>layers := (\<lambda>k. map_option removeLayer (layers s k))\<rparr>"

text \<open>
  \<^verbatim>\<open>LandUseMap.processData\<close>; it runs once, from the constructor's \<^verbatim>\<open>loadData\<close>, on
  the three \<^verbatim>\<open>null\<close> layers.
\<close>

definition LandUse_processData :: "page \<Rightarrow> payload \<Rightarrow> exn option \<times> page" where
  "LandUse_processData s geojsonData =
     (case pfeatures geojsonData of
        None \<Rightarrow> (Some TypeError, s)
      | Some fs \<Rightarrow>
          (case LandUse_groupFeatures fs of
             None \<Rightarrow> (Some TypeError, s)
           | Some featuresByClass \<Rightarrow>
               (None, showAllLayers (foldl LandUse_createLayer s featuresByClass))))"

text \<open>
  \<^verbatim>\<open>LandUseMap.showLayer\<close> and \<^verbatim>\<open>hideLayer\<close>: the exception raised, if any, and the
  state then.
\<close>

definition showLayer :: "string \<Rightarrow> page \<Rightarrow> exn option \<times> page" where
  "showLayer className s =
     (case jsGet (layers s) className of
        Absent \<Rightarrow> (None, s)
      | Inherited \<Rightarrow> (Some NotALayer, s)
      | Own l \<Rightarrow>
          if \<not> hasLayer l then (None, s\<lparr>layers := (layers s)(className \<mapsto> addLayer l)\<rparr>)
          else (None, s))"

definition hideLayer :: "string \<Rightarrow> page \<Rightarrow> exn option \<times> page" where
  "hideLayer className s =
     (case jsGet (layers s) className of
        Absent \<Rightarrow> (None, s)
      | Inherited \<Rightarrow> (None, s)
      | Own l \<Rightarrow>
          if hasLayer l then (None, s\<lparr>layers := (layers s)(className \<mapsto> removeLayer l)\<rparr>)
          else (None, s))"

section \<open>Two reloads in flight\<close>

text \<open>
  \<^verbatim>\<open>applyFilters\<close> stores the snapshot in \<^verbatim>\<open>this.currentFilters\<close> and calls the
  loader, which builds its query from \<^verbatim>\<open>this.currentFilters\<close> before its first
  \<^verbatim>\<open>await\<close>. Two reloads are issued, with snapshots \<open>S1\<close> then \<open>S2\<close>, before any
  answer arrives; \<open>server\<close> gives the answer to a query; the two answers then arrive in
  one order or the other, each running the rest of its loader.
\<close>

definition FRA_reloadTwice ::
  "(string \<Rightarrow> string) \<Rightarrow> (jsobject \<Rightarrow> payload fetched) \<Rightarrow> bool \<Rightarrow> page \<Rightarrow> jsobject \<Rightarrow> jsobject
     \<Rightarrow> page" where
  "FRA_reloadTwice lower server firstArrivesFirst s S1 S2 =
     (let s1 = s\<lparr>currentFilters := S1\<rparr>;
          query1 = currentFilters s1;
          s2 = s1\<lparr>currentFilters := S2\<rparr>;
          query2 = currentFilters s2
      in if firstArrivesFirst
         then FRA_loadClaims_resume lower (FRA_loadClaims_resume lower s2 (server query1))
                (server query2)
         else FRA_loadClaims_resume lower (FRA_loadClaims_resume lower s2 (server query2))
                (server query1))"

definition India_reloadTwice ::
  "(jsobject \<Rightarrow> payload fetched) \<Rightarrow> bool \<Rightarrow> page \<Rightarrow> jsobject \<Rightarrow> jsobject \<Rightarrow> page" where
  "India_reloadTwice server firstArrivesFirst s S1 S2 =
     (let s1 = s\<lparr>currentFilters := S1\<rparr>;
          query1 = currentFilters s1;
          s2 = s1\<lparr>currentFilters := S2\<rparr>;
          query2 = currentFilters s2
      in if firstArrivesFirst
         then India_loadData_resume (India_loadData_resume s2 (server query1)) (server query2)
         else India_loadData_resume (India_loadData_resume s2 (server query2)) (server query1))"

section \<open>Claim details\<close>

text \<open>
  \<^verbatim>\<open>FRAWebGIS.showClaimDetails\<close>. \<open>requests\<close> lists the URLs fetched so far,
  \<open>details\<close> is the record the modal displays, \<open>modalOpen\<close> whether the modal is
  displayed, \<open>reported\<close> what was reported. \<open>server\<close> answers a URL.
\<close>

record claim_view =
  requests :: "string list"
  details :: "jsobject option"
  modalOpen :: bool
  reported :: "exn list"

definition showClaimDetails :: "(string \<Rightarrow> jsobject fetched) \<Rightarrow> string \<Rightarrow> claim_view \<Rightarrow> claim_view" where
  "showClaimDetails server claimId v =
     (let url = ''/api/claim/'' @ claimId;
          v1 = v\<lparr>requests := requests v @ [url]\<rparr>
      in case server url of
           Rejected \<Rightarrow> v1\<lparr>reported := reported v1 @ [NetworkError]\<rparr>
         | Response ok status None \<Rightarrow> v1\<lparr>reported := reported v1 @ [SyntaxError]\<rparr>
         | Response ok status (Some claimDetails) \<Rightarrow>
             (case map_of claimDetails ''error'' of
                None \<Rightarrow> v1\<lparr>details := Some claimDetails, modalOpen := True\<rparr>
              | Some msg \<Rightarrow>
                  if truthy msg then v1\<lparr>reported := reported v1 @ [ServerError msg]\<rparr>
                  else v1\<lparr>details := Some claimDetails, modalOpen := True\<rparr>))"

section \<open>Filters\<close>

text \<open>
  \<^verbatim>\<open>Object.fromEntries(Object.entries(this.currentFilters).filter(([_, value]) => value))\<close>:
  the entries whose value is truthy, in their order.
\<close>

definition removeEmptyFilters :: "jsobject \<Rightarrow> jsobject" where
  "removeEmptyFilters entries = filter (\<lambda>(_, v). truthy v) entries"

text \<open>The values of the filter controls of the FRA page, read from the DOM.\<close>

record fra_form =
  state_filter :: string
  district_filter :: string
  village_filter :: string
  fra_type_filter :: string
  status_filter :: string
  tribal_filter :: string
  area_min :: string
  area_max :: string

definition FRA_collectFilters :: "fra_form \<Rightarrow> jsobject" where
  "FRA_collectFilters form =
     [(''state'', state_filter form),
      (''district'', district_filter form),
      (''village'', village_filter form),
      (''fra_type'', fra_type_filter form),
      (''status'', status_filter form),
      (''tribal_community'', tribal_filter form),
      (''claim_area_min'', area_min form),
      (''claim_area_max'', area_max form)]"

text \<open>\<^verbatim>\<open>FRAWebGIS.applyFilters\<close>, up to the reload it starts: the new \<^verbatim>\<open>currentFilters\<close>.\<close>

definition FRA_applyFilters :: "fra_form \<Rightarrow> jsobject" where
  "FRA_applyFilters form = removeEmptyFilters (FRA_collectFilters form)"

section \<open>Properties stated over states, and example inputs\<close>

text \<open>
  Two states differ at most in whether the layer of \<open>cat\<close> is attached to the map: every
  other field is the same, every other category has the same layer or none, and \<open>cat\<close>
  itself is registered in both or in neither, with the same features and style.
\<close>

definition onlyAttachmentChanged :: "string \<Rightarrow> page \<Rightarrow> page \<Rightarrow> bool" where
  "onlyAttachmentChanged cat s s' \<longleftrightarrow>
     s'\<lparr>layers := layers s\<rparr> = s
     \<and> (layers s')(cat := None) = (layers s)(cat := None)
     \<and> map_option lfeatures (layers s' cat) = map_option lfeatures (layers s cat)
     \<and> map_option lstyle (layers s' cat) = map_option lstyle (layers s cat)"

text \<open>\<^verbatim>\<open>countOf\<close>: the number of features held by the layer of a category, 0 if absent.\<close>

definition countOf :: "page \<Rightarrow> string \<Rightarrow> nat" where
  "countOf s cat = (case layers s cat of None \<Rightarrow> 0 | Some l \<Rightarrow> length (lfeatures l))"

text \<open>
  What grouping maintains: the buckets have distinct keys, and the bucket of a key holds the
  features seen so far whose category gives that key, in their order; a key no feature
  gave has no bucket. For \<^verbatim>\<open>LandUseMap\<close> the keys are the three it starts with.
\<close>

definition bucketsOf :: "(feature \<Rightarrow> string) \<Rightarrow> buckets \<Rightarrow> feature list \<Rightarrow> bool" where
  "bucketsOf key acc gs \<longleftrightarrow>
     distinct (map fst acc)
     \<and> (\<forall>k. map_of acc k = (if k \<in> key ` set gs then Some (filter (\<lambda>f. key f = k) gs) else None))"

definition knownBucketsOf :: "buckets \<Rightarrow> feature list \<Rightarrow> bool" where
  "knownBucketsOf acc gs \<longleftrightarrow>
     map fst acc = [''water'', ''forest'', ''agriculture'']
     \<and> (\<forall>k. map_of acc k = (if k \<in> {''water'', ''forest'', ''agriculture''}
            then Some (filter (\<lambda>f. propertyKey (getProp ''class'' f) = k) gs) else None))"

text \<open>
  The layer a round of the loop of \<^verbatim>\<open>processData\<close> (\<^verbatim>\<open>processClaimsData\<close>) registers
  for a bucket that is not empty.
\<close>

definition India_newLayer :: "page \<Rightarrow> string \<Rightarrow> feature list \<Rightarrow> layer" where
  "India_newLayer s k fs = \<lparr>lfeatures = fs, lstyle = India_styleFor k,
      onMap = (checkboxes s (''layer-'' @ k) = Some True)\<rparr>"

definition FRA_newLayer :: "(string \<Rightarrow> string) \<Rightarrow> page \<Rightarrow> string \<Rightarrow> feature list \<Rightarrow> layer" where
  "FRA_newLayer lower s k fs = \<lparr>lfeatures = fs, lstyle = FRA_styleFor k,
      onMap = (checkboxes s (''layer-'' @ lower k) = Some True)\<rparr>"

text \<open>
  No feature has a category that is an inherited name: the grouping by the property
  \<open>name\<close> then runs to its end.
\<close>

definition groupable :: "string \<Rightarrow> feature list \<Rightarrow> bool" where
  "groupable name fs = list_all (\<lambda>g. \<not> inherited (propertyKey (getProp name g))) fs"

definition exampleFeature :: "string \<Rightarrow> string \<Rightarrow> feature" where
  "exampleFeature name cat = \<lparr>geometry = ''Polygon'', properties = [(name, cat)]\<rparr>"

definition okPayload :: "feature list \<Rightarrow> payload fetched" where
  "okPayload fs = Response True 200 (Some \<lparr>perror = None, pfeatures = Some fs\<rparr>)"

text \<open>The page of \<^verbatim>\<open>IndiaLandUseMap\<close> before \<^verbatim>\<open>loadLayers\<close>: no layer control yet.\<close>

definition India_blankPage :: page where
  "India_blankPage =
     \<lparr>layers = Map.empty, currentFilters = [], checkboxes = Map.empty,
      shown = [''feature-count'' \<mapsto> 0], layerControls = [], errors = []\<rparr>"

text \<open>A page with no layer yet, its two layer checkboxes checked and its counters at 0.\<close>

definition India_examplePage :: page where
  "India_examplePage =
     \<lparr>layers = Map.empty, currentFilters = [],
      checkboxes = [''layer-water'' \<mapsto> True, ''layer-urban'' \<mapsto> True],
      shown = [''count-water'' \<mapsto> 0, ''count-urban'' \<mapsto> 0, ''feature-count'' \<mapsto> 0],
      layerControls = [''water'', ''urban''], errors = []\<rparr>"

definition FRA_examplePage :: page where
  "FRA_examplePage =
     \<lparr>layers = Map.empty, currentFilters = [],
      checkboxes = [''layer-ifr'' \<mapsto> True, ''layer-cfr'' \<mapsto> True, ''layer-cr'' \<mapsto> False],
      shown = [''feature-count'' \<mapsto> 0],
      layerControls = [], errors = []\<rparr>"

text \<open>A data server: two IFR claims for Telangana, one CFR claim for any other query.\<close>

definition exampleDataServer :: "jsobject \<Rightarrow> payload fetched" where
  "exampleDataServer query =
     (if query = [(''state'', ''Telangana'')]
      then okPayload [exampleFeature ''fra_type'' ''IFR'', exampleFeature ''fra_type'' ''IFR'']
      else okPayload [exampleFeature ''fra_type'' ''CFR''])"

text \<open>The page of \<^verbatim>\<open>LandUseMap\<close> before its data is loaded: the three layers are \<^verbatim>\<open>null\<close>.\<close>

definition LandUse_examplePage :: page where
  "LandUse_examplePage =
     \<lparr>layers = Map.empty, currentFilters = [], checkboxes = Map.empty, shown = Map.empty,
      layerControls = [], errors = []\<rparr>"

definition emptyView :: claim_view where
  "emptyView = \<lparr>requests = [], details = None, modalOpen = False, reported = []\<rparr>"

definition exampleClaimServer :: "string \<Rightarrow> jsobject fetched" where
  "exampleClaimServer url = Response True 200 (Some [(''claim_id'', ''FRA001''), (''fra_type'', ''IFR'')])"

text \<open>The FRA page showing one IFR claim, its layer attached.\<close>

definition FRA_loadedPage :: page where
  "FRA_loadedPage =
     FRA_examplePage\<lparr>layers :=
       [''IFR'' \<mapsto> addLayer (geoJSON [exampleFeature ''fra_type'' ''IFR''] (FRA_styleFor ''IFR''))]\<rparr>"

definition failingClaimServer :: "string \<Rightarrow> jsobject fetched" where
  "failingClaimServer url = Rejected"

section \<open>Unfolding the definitions\<close>

lemmas leaflet_defs = hasLayer_def addLayer_def removeLayer_def

lemmas toggle_defs = FRA_toggleLayer_def India_toggleLayer_def showLayer_def hideLayer_def

lemmas example_defs = exampleFeature_def okPayload_def India_examplePage_def FRA_examplePage_def
  LandUse_examplePage_def exampleDataServer_def

lemmas run_defs = India_loadData_resume_def India_processData_def FRA_loadClaims_resume_def
  FRA_processClaimsData_def LandUse_processData_def groupFeatures_def groupStep_def
  LandUse_groupFeatures_def LandUse_groupStep_def jsGet_def inherited_def objectPrototypeNames_def
  India_createLayer_def FRA_createLayer_def LandUse_createLayer_def showAllLayers_def
  clearLayers_def updateFeatureCount_def showError_def geoJSON_def addLayer_def getProp_def
  propertyKey_def truthyOpt_def truthy_def countOf_def asciiLowerCase_def lowerChar_def Let_def

lemma example_keys:
  "propertyKey (getProp name (exampleFeature name c)) = c"
  by (simp add: exampleFeature_def getProp_def propertyKey_def)

lemma not_inherited_examples:
  "\<not> inherited ''water''" "\<not> inherited ''urban''" "\<not> inherited ''forest_dense''"
  "\<not> inherited ''scrub''" "\<not> inherited ''IFR''" "\<not> inherited ''CFR''" "\<not> inherited ''CR''"
  "\<not> inherited ''undefined''" "inherited ''constructor''"
  by (simp_all add: inherited_def objectPrototypeNames_def)

section \<open>Filter snapshots hold no empty value\<close>

lemma removeEmptyFilters_values:
  "(k, v) \<in> set (removeEmptyFilters entries) \<Longrightarrow> v \<noteq> []"
  by (auto simp: removeEmptyFilters_def truthy_def)

lemma removeEmptyFilters_lookup:
  "distinct (map fst entries) \<Longrightarrow>
   map_of (removeEmptyFilters entries) k =
     (case map_of entries k of None \<Rightarrow> None | Some v \<Rightarrow> if v = [] then None else Some v)"
proof (induction entries)
  case Nil
  then show ?case by (simp add: removeEmptyFilters_def)
next
  case (Cons p entries)
  obtain k' v' where p: "p = (k', v')" by (cases p)
  from Cons.prems p have notin: "k' \<notin> fst ` set entries" and d: "distinct (map fst entries)"
    by auto
  have ih: "map_of (filter (\<lambda>(_, v). truthy v) entries) k =
     (case map_of entries k of None \<Rightarrow> None | Some v \<Rightarrow> if v = [] then None else Some v)"
    using Cons.IH [OF d] by (simp add: removeEmptyFilters_def)
  show ?case
  proof (cases "k = k'")
    case True
    with notin have none: "map_of entries k = None"
      by (simp add: map_of_eq_None_iff)
    with ih True p show ?thesis
      by (simp add: removeEmptyFilters_def truthy_def)
  next
    case False
    with ih p show ?thesis
      by (simp add: removeEmptyFilters_def)
  qed
qed

text \<open>
  Claim C5, as the code has it. Applying filters strips every value that is the empty
  string: over a filter object (distinct field names), a field is in the snapshot exactly
  when the form gave it a non-empty value, and it keeps that value. So every field
  present has a non-empty value; the same holds of the snapshot
  \<^verbatim>\<open>FRAWebGIS.applyFilters\<close> builds from the page's controls; and
  \<^verbatim>\<open>{state: "", district: "X"}\<close> yields the single field \<^verbatim>\<open>district -> "X"\<close>.
  A value that is not empty stays, blank or not.
\<close>

theorem applyFilters_strips_empty:
  assumes "distinct (map fst entries)"
  shows "(map_of (removeEmptyFilters entries) k = Some v \<longleftrightarrow>
            map_of entries k = Some v \<and> v \<noteq> [])
       \<and> (map_of (FRA_applyFilters form) k = Some v \<longleftrightarrow>
            map_of (FRA_collectFilters form) k = Some v \<and> v \<noteq> [])
       \<and> removeEmptyFilters [(''state'', ''''), (''district'', ''X'')] = [(''district'', ''X'')]"
proof -
  have general: "map_of (removeEmptyFilters es) k = Some v \<longleftrightarrow>
      map_of es k = Some v \<and> v \<noteq> []" if "distinct (map fst es)" for es
    using removeEmptyFilters_lookup [OF that, of k]
    by (auto split: option.splits if_splits)
  have keys: "distinct (map fst (FRA_collectFilters form))"
    by (simp add: FRA_collectFilters_def)
  have example: "removeEmptyFilters [(''state'', ''''), (''district'', ''X'')] = [(''district'', ''X'')]"
    by (simp add: removeEmptyFilters_def truthy_def)
  from general [OF assms] general [OF keys] example show ?thesis
    by (simp add: FRA_applyFilters_def)
qed

theorem applyFilters_strips_empty_witness:
  "distinct (map fst [(''state'', ''''), (''district'', ''X'')])
   \<and> map_of (removeEmptyFilters [(''state'', ''''), (''district'', ''X'')]) ''district'' = Some ''X''
   \<and> map_of (removeEmptyFilters [(''state'', ''''), (''district'', ''X'')]) ''state'' = None"
proof -
  have d: "distinct (map fst [(''state'', ''''), (''district'', ''X'')])"
    by simp
  have a: "map_of (removeEmptyFilters [(''state'', ''''), (''district'', ''X'')]) ''district'' = Some ''X''"
    using applyFilters_strips_empty [OF d, of "''district''" "''X''"] by simp
  have "map_of (removeEmptyFilters [(''state'', ''''), (''district'', ''X'')]) ''state'' \<noteq> Some v" for v
    using applyFilters_strips_empty [OF d, of "''state''" v] by simp
  then have b: "map_of (removeEmptyFilters [(''state'', ''''), (''district'', ''X'')]) ''state'' = None"
    by (cases "map_of (removeEmptyFilters [(''state'', ''''), (''district'', ''X'')]) ''state''") auto
  from d a b show ?thesis by simp
qed

text \<open>
  Claim C5 as stated fails: the code tests truthiness, and a blank value of one space is
  truthy, so it is not stripped.
\<close>

theorem applyFilters_keeps_blank_counterexample:
  "removeEmptyFilters [(''state'', '' ''), (''district'', ''X'')]
     = [(''state'', '' ''), (''district'', ''X'')]
   \<and> FRA_applyFilters \<lparr>state_filter = '' '', district_filter = ''X'', village_filter = '''',
        fra_type_filter = '''', status_filter = '''', tribal_filter = '''', area_min = '''',
        area_max = ''''\<rparr>
     = [(''state'', '' ''), (''district'', ''X'')]"
  by (simp add: removeEmptyFilters_def truthy_def FRA_applyFilters_def FRA_collectFilters_def)

section \<open>Classification\<close>

lemma groupable_iff:
  "groupable name fs \<longleftrightarrow> (\<forall>g\<in>set fs. \<not> inherited (propertyKey (getProp name g)))"
  by (simp add: groupable_def list_all_iff)

lemma groupable_simps:
  "groupable name []"
  "groupable name (f # fs) \<longleftrightarrow> \<not> inherited (propertyKey (getProp name f)) \<and> groupable name fs"
  "groupable name (gs @ fs) \<longleftrightarrow> groupable name gs \<and> groupable name fs"
  by (simp_all add: groupable_def)

lemma bucket_of_inherited:
  assumes "bucketsOf (\<lambda>f. propertyKey (getProp name f)) acc gs" and "groupable name gs"
    and "inherited k"
  shows "map_of acc k = None"
proof -
  from assms(2,3) have "k \<notin> (\<lambda>f. propertyKey (getProp name f)) ` set gs"
    by (auto simp: groupable_iff)
  with assms(1) show ?thesis by (simp add: bucketsOf_def)
qed

lemma groupStep_throws:
  assumes "bucketsOf (\<lambda>f. propertyKey (getProp name f)) acc gs" and "groupable name gs"
    and "inherited (propertyKey (getProp name g))"
  shows "groupStep name acc g = None"
  using bucket_of_inherited [OF assms] assms(3)
  by (simp add: groupStep_def jsGet_def)

lemma groupStep_buckets:
  assumes "bucketsOf (\<lambda>f. propertyKey (getProp name f)) acc gs"
    and "\<not> inherited (propertyKey (getProp name g))"
  shows "\<exists>acc'. groupStep name acc g = Some acc'
           \<and> bucketsOf (\<lambda>f. propertyKey (getProp name f)) acc' (gs @ [g])"
proof -
  let ?key = "\<lambda>f. propertyKey (getProp name f)"
  let ?acc1 = "if map_of acc (?key g) = None then AList.update (?key g) [] acc else acc"
  let ?acc' = "AList.map_entry (?key g) (\<lambda>b. b @ [g]) ?acc1"
  from assms(1) have d: "distinct (map fst acc)"
    and m: "\<And>k. map_of acc k = (if k \<in> ?key ` set gs then Some (filter (\<lambda>f. ?key f = k) gs) else None)"
    by (simp_all add: bucketsOf_def)
  have d1: "distinct (map fst ?acc1)"
    using d by (simp add: AList.distinct_update)
  have m1: "map_of ?acc1 k = (if k = ?key g \<and> k \<notin> ?key ` set gs then Some []
       else map_of acc k)" for k
    using m [of "?key g"] by (auto simp: AList.update_conv')
  have step: "groupStep name acc g = Some ?acc'"
    using assms(2) by (auto simp: groupStep_def jsGet_def Let_def split: option.splits)
  have "distinct (map fst ?acc')"
    using d1 by (rule AList.distinct_map_entry)
  moreover have "map_of ?acc' k =
      (if k \<in> ?key ` set (gs @ [g]) then Some (filter (\<lambda>f. ?key f = k) (gs @ [g])) else None)" for k
  proof (cases "k = ?key g")
    case True
    show ?thesis
    proof (cases "k \<in> ?key ` set gs")
      case True
      with \<open>k = ?key g\<close> m1 [of k] m [of k] show ?thesis
        by (simp add: AList.map_of_map_entry)
    next
      case False
      then have "filter (\<lambda>f. ?key f = k) gs = []"
        by (auto simp: filter_empty_conv)
      with False \<open>k = ?key g\<close> m1 [of k] show ?thesis
        by (simp add: AList.map_of_map_entry)
    qed
  next
    case False
    with m1 [of k] m [of k] show ?thesis
      by (auto simp: AList.map_of_map_entry)
  qed
  ultimately have "bucketsOf ?key ?acc' (gs @ [g])"
    by (simp add: bucketsOf_def)
  with step show ?thesis by blast
qed

lemma forEach_groupStep:
  assumes "bucketsOf (\<lambda>f. propertyKey (getProp name f)) acc gs" and "groupable name fs"
  shows "\<exists>acc'. forEach (groupStep name) acc fs = Some acc'
           \<and> bucketsOf (\<lambda>f. propertyKey (getProp name f)) acc' (gs @ fs)"
  using assms
proof (induction fs arbitrary: acc gs)
  case Nil
  then show ?case by simp
next
  case (Cons f fs)
  from Cons.prems(2) have nf: "\<not> inherited (propertyKey (getProp name f))"
    and rest: "groupable name fs"
    by (simp_all add: groupable_simps)
  from groupStep_buckets [OF Cons.prems(1) nf]
  obtain acc1 where s1: "groupStep name acc f = Some acc1"
    and b1: "bucketsOf (\<lambda>f. propertyKey (getProp name f)) acc1 (gs @ [f])"
    by blast
  from Cons.IH [OF b1 rest] s1 show ?case by simp
qed

lemma forEach_groupStep_throws:
  assumes "bucketsOf (\<lambda>f. propertyKey (getProp name f)) acc gs" and "groupable name gs"
    and "\<not> groupable name fs"
  shows "forEach (groupStep name) acc fs = None"
  using assms
proof (induction fs arbitrary: acc gs)
  case Nil
  then show ?case by (simp add: groupable_simps)
next
  case (Cons f fs)
  show ?case
  proof (cases "inherited (propertyKey (getProp name f))")
    case True
    from groupStep_throws [OF Cons.prems(1,2) True] show ?thesis by simp
  next
    case False
    from groupStep_buckets [OF Cons.prems(1) False]
    obtain acc1 where s1: "groupStep name acc f = Some acc1"
      and b1: "bucketsOf (\<lambda>f. propertyKey (getProp name f)) acc1 (gs @ [f])"
      by blast
    from Cons.prems(2) False have g1: "groupable name (gs @ [f])"
      by (simp add: groupable_simps)
    from Cons.prems(3) False have "\<not> groupable name fs"
      by (simp add: groupable_simps)
    from Cons.IH [OF b1 g1 this] s1 show ?thesis by simp
  qed
qed

lemma bucketsOf_empty: "bucketsOf key [] []"
  by (simp add: bucketsOf_def)

lemma groupFeatures_buckets:
  assumes "groupable name fs"
  shows "\<exists>bs. groupFeatures name fs = Some bs
           \<and> bucketsOf (\<lambda>f. propertyKey (getProp name f)) bs fs"
  using forEach_groupStep [OF bucketsOf_empty assms] by (simp add: groupFeatures_def)

lemma groupFeatures_throws:
  assumes "\<not> groupable name fs"
  shows "groupFeatures name fs = None"
  using forEach_groupStep_throws [OF bucketsOf_empty _ assms]
  by (simp add: groupFeatures_def groupable_simps)

lemma groupFeatures_lookup:
  assumes "groupFeatures name fs = Some bs"
  shows "map_of bs k =
     (if k \<in> (\<lambda>g. propertyKey (getProp name g)) ` set fs
      then Some (filter (\<lambda>g. propertyKey (getProp name g) = k) fs) else None)"
    and "distinct (map fst bs)"
    and "groupable name fs"
proof -
  show g: "groupable name fs"
    using assms groupFeatures_throws [of name fs] by (cases "groupable name fs") simp_all
  from groupFeatures_buckets [OF g] assms
  have "bucketsOf (\<lambda>f. propertyKey (getProp name f)) bs fs" by simp
  then show "map_of bs k =
     (if k \<in> (\<lambda>g. propertyKey (getProp name g)) ` set fs
      then Some (filter (\<lambda>g. propertyKey (getProp name g) = k) fs) else None)"
    and "distinct (map fst bs)"
    by (simp_all add: bucketsOf_def)
qed

lemma map_fst_map_entry: "map fst (AList.map_entry k f xs) = map fst xs"
  by (induction xs) auto

lemma known_names_not_inherited:
  "k \<in> {''water'', ''forest'', ''agriculture''} \<Longrightarrow> \<not> inherited k"
  by (auto simp: inherited_def objectPrototypeNames_def)

lemma LandUse_groupStep_throws:
  assumes "knownBucketsOf acc gs" and "inherited (propertyKey (getProp ''class'' g))"
  shows "LandUse_groupStep acc g = None"
proof -
  from assms(2) known_names_not_inherited
  have "propertyKey (getProp ''class'' g) \<notin> {''water'', ''forest'', ''agriculture''}"
    by blast
  with assms(1) have "map_of acc (propertyKey (getProp ''class'' g)) = None"
    by (simp add: knownBucketsOf_def)
  with assms(2) show ?thesis
    by (simp add: LandUse_groupStep_def jsGet_def)
qed

lemma LandUse_groupStep_buckets:
  assumes "knownBucketsOf acc gs" and "\<not> inherited (propertyKey (getProp ''class'' g))"
  shows "\<exists>acc'. LandUse_groupStep acc g = Some acc' \<and> knownBucketsOf acc' (gs @ [g])"
proof -
  let ?key = "\<lambda>f. propertyKey (getProp ''class'' f)"
  from assms(1) have ks: "map fst acc = [''water'', ''forest'', ''agriculture'']"
    and m: "\<And>k. map_of acc k = (if k \<in> {''water'', ''forest'', ''agriculture''}
            then Some (filter (\<lambda>f. ?key f = k) gs) else None)"
    by (simp_all add: knownBucketsOf_def)
  show ?thesis
  proof (cases "?key g \<in> {''water'', ''forest'', ''agriculture''}")
    case True
    then have step: "LandUse_groupStep acc g = Some (AList.map_entry (?key g) (\<lambda>b. b @ [g]) acc)"
      using m [of "?key g"] by (simp add: LandUse_groupStep_def jsGet_def Let_def)
    have "map_of (AList.map_entry (?key g) (\<lambda>b. b @ [g]) acc) k
          = (if k \<in> {''water'', ''forest'', ''agriculture''}
            then Some (filter (\<lambda>f. ?key f = k) (gs @ [g])) else None)" for k
      using m [of k] True
      by (cases "k = ?key g") (simp_all add: AList.map_of_map_entry)
    with ks have "knownBucketsOf (AList.map_entry (?key g) (\<lambda>b. b @ [g]) acc) (gs @ [g])"
      unfolding knownBucketsOf_def by (simp add: map_fst_map_entry)
    with step show ?thesis by blast
  next
    case False
    then have step: "LandUse_groupStep acc g = Some acc"
      using m [of "?key g"] assms(2) by (simp add: LandUse_groupStep_def jsGet_def Let_def)
    have "map_of acc k = (if k \<in> {''water'', ''forest'', ''agriculture''}
            then Some (filter (\<lambda>f. ?key f = k) (gs @ [g])) else None)" for k
      using m [of k] False by auto
    with ks have "knownBucketsOf acc (gs @ [g])"
      unfolding knownBucketsOf_def by simp
    with step show ?thesis by blast
  qed
qed

lemma forEach_LandUse_groupStep:
  assumes "knownBucketsOf acc gs" and "groupable ''class'' fs"
  shows "\<exists>acc'. forEach LandUse_groupStep acc fs = Some acc' \<and> knownBucketsOf acc' (gs @ fs)"
  using assms
proof (induction fs arbitrary: acc gs)
  case Nil
  then show ?case by simp
next
  case (Cons f fs)
  from Cons.prems(2) have nf: "\<not> inherited (propertyKey (getProp ''class'' f))"
    and rest: "groupable ''class'' fs"
    by (simp_all add: groupable_simps)
  from LandUse_groupStep_buckets [OF Cons.prems(1) nf]
  obtain acc1 where s1: "LandUse_groupStep acc f = Some acc1"
    and b1: "knownBucketsOf acc1 (gs @ [f])"
    by blast
  from Cons.IH [OF b1 rest] s1 show ?case by simp
qed

lemma forEach_LandUse_groupStep_throws:
  assumes "knownBucketsOf acc gs" and "\<not> groupable ''class'' fs"
  shows "forEach LandUse_groupStep acc fs = None"
  using assms
proof (induction fs arbitrary: acc gs)
  case Nil
  then show ?case by (simp add: groupable_simps)
next
  case (Cons f fs)
  show ?case
  proof (cases "inherited (propertyKey (getProp ''class'' f))")
    case True
    from LandUse_groupStep_throws [OF Cons.prems(1) True] show ?thesis by simp
  next
    case False
    from LandUse_groupStep_buckets [OF Cons.prems(1) False]
    obtain acc1 where s1: "LandUse_groupStep acc f = Some acc1"
      and b1: "knownBucketsOf acc1 (gs @ [f])"
      by blast
    from Cons.prems(2) False have "\<not> groupable ''class'' fs"
      by (simp add: groupable_simps)
    from Cons.IH [OF b1 this] s1 show ?thesis by simp
  qed
qed

lemma knownBucketsOf_start:
  "knownBucketsOf [(''water'', []), (''forest'', []), (''agriculture'', [])] []"
  by (simp add: knownBucketsOf_def)

lemma LandUse_groupFeatures_buckets:
  assumes "groupable ''class'' fs"
  shows "\<exists>bs. LandUse_groupFeatures fs = Some bs \<and> knownBucketsOf bs fs"
  using forEach_LandUse_groupStep [OF knownBucketsOf_start assms]
  by (simp add: LandUse_groupFeatures_def)

lemma LandUse_groupFeatures_throws:
  assumes "\<not> groupable ''class'' fs"
  shows "LandUse_groupFeatures fs = None"
  using forEach_LandUse_groupStep_throws [OF knownBucketsOf_start assms]
  by (simp add: LandUse_groupFeatures_def)

lemma LandUse_groupFeatures_lookup:
  assumes "LandUse_groupFeatures fs = Some bs"
  shows "map_of bs k =
     (if k \<in> {''water'', ''forest'', ''agriculture''}
      then Some (filter (\<lambda>g. propertyKey (getProp ''class'' g) = k) fs) else None)"
    and "map fst bs = [''water'', ''forest'', ''agriculture'']"
    and "distinct (map fst bs)"
proof -
  have g: "groupable ''class'' fs"
    using assms LandUse_groupFeatures_throws [of fs] by (cases "groupable ''class'' fs") simp_all
  from LandUse_groupFeatures_buckets [OF g] assms
  have kb: "knownBucketsOf bs fs" by simp
  then show "map_of bs k =
     (if k \<in> {''water'', ''forest'', ''agriculture''}
      then Some (filter (\<lambda>g. propertyKey (getProp ''class'' g) = k) fs) else None)"
    and ks: "map fst bs = [''water'', ''forest'', ''agriculture'']"
    by (simp_all add: knownBucketsOf_def)
  show "distinct (map fst bs)" unfolding ks by simp
qed

lemma filter_key_nonempty:
  "k \<in> key ` set fs \<Longrightarrow> filter (\<lambda>g. key g = k) fs \<noteq> []"
  by (auto simp: filter_empty_conv)

text \<open>A category that is an inherited name makes the grouping throw.\<close>

lemma groupFeatures_inherited_example:
  "groupFeatures ''class'' [exampleFeature ''class'' ''water'', exampleFeature ''class'' ''constructor'']
     = None"
  "LandUse_groupFeatures [exampleFeature ''class'' ''water'', exampleFeature ''class'' ''constructor'']
     = None"
  by (simp_all add: groupFeatures_def groupStep_def LandUse_groupFeatures_def
      LandUse_groupStep_def jsGet_def Let_def example_keys not_inherited_examples)

text \<open>
  Claim C1, as the code has it. For a feature collection in which no category is a name
  inherited from \<^verbatim>\<open>Object.prototype\<close>, the grouping of
  \<^verbatim>\<open>IndiaLandUseMap.processData\<close> (by \<^verbatim>\<open>class\<close>) and of
  \<^verbatim>\<open>FRAWebGIS.processClaimsData\<close> (by \<^verbatim>\<open>fra_type\<close>) runs to its end and puts every
  feature in exactly one bucket, the one keyed by its category (\<^verbatim>\<open>undefined\<close> when the
  property is missing), keeps the input order in each bucket and drops nothing.
  \<^verbatim>\<open>LandUseMap.processData\<close> has the three buckets water, forest and agriculture only:
  a feature is in a bucket only if its class is one of the three, and then in that one.
\<close>

theorem classification_buckets:
  assumes "f \<in> set fs" and "name = ''class'' \<or> name = ''fra_type''"
    and "groupable name fs" and "groupable ''class'' fs"
  shows "\<exists>bs lbs. groupFeatures name fs = Some bs \<and> LandUse_groupFeatures fs = Some lbs
       \<and> distinct (map fst bs)
       \<and> map_of bs k =
           (if k \<in> (\<lambda>g. propertyKey (getProp name g)) ` set fs
            then Some (filter (\<lambda>g. propertyKey (getProp name g) = k) fs) else None)
       \<and> (\<exists>b. map_of bs (propertyKey (getProp name f)) = Some b \<and> f \<in> set b)
       \<and> (\<forall>k' b. map_of bs k' = Some b \<and> f \<in> set b
             \<longrightarrow> k' = propertyKey (getProp name f))
       \<and> map fst lbs = [''water'', ''forest'', ''agriculture'']
       \<and> map_of lbs k =
           (if k \<in> {''water'', ''forest'', ''agriculture''}
            then Some (filter (\<lambda>g. propertyKey (getProp ''class'' g) = k) fs) else None)
       \<and> (\<forall>k' b. map_of lbs k' = Some b \<and> f \<in> set b
             \<longrightarrow> k' = propertyKey (getProp ''class'' f)
                 \<and> k' \<in> {''water'', ''forest'', ''agriculture''})"
proof -
  let ?key = "\<lambda>g. propertyKey (getProp name g)"
  let ?cls = "\<lambda>g. propertyKey (getProp ''class'' g)"
  from groupFeatures_buckets [OF assms(3)]
  obtain bs where bs: "groupFeatures name fs = Some bs" by blast
  from LandUse_groupFeatures_buckets [OF assms(4)]
  obtain lbs where lbs: "LandUse_groupFeatures fs = Some lbs" by blast
  note m = groupFeatures_lookup(1) [OF bs]
  note d = groupFeatures_lookup(2) [OF bs]
  note lm = LandUse_groupFeatures_lookup(1) [OF lbs]
  note ks = LandUse_groupFeatures_lookup(2) [OF lbs]
  have own: "\<exists>b. map_of bs (?key f) = Some b \<and> f \<in> set b"
    using assms(1) m [of "?key f"] by auto
  have only: "\<forall>k' b. map_of bs k' = Some b \<and> f \<in> set b \<longrightarrow> k' = ?key f"
    using m by (auto split: if_splits)
  have lonly: "\<forall>k' b. map_of lbs k' = Some b \<and> f \<in> set b
      \<longrightarrow> k' = ?cls f \<and> k' \<in> {''water'', ''forest'', ''agriculture''}"
  proof (intro allI impI)
    fix k' b
    assume a: "map_of lbs k' = Some b \<and> f \<in> set b"
    with lm [of k'] have "k' \<in> {''water'', ''forest'', ''agriculture''}"
      and "b = filter (\<lambda>g. ?cls g = k') fs"
      by (auto split: if_splits)
    with a show "k' = ?cls f \<and> k' \<in> {''water'', ''forest'', ''agriculture''}"
      by auto
  qed
  show ?thesis
  proof (rule exI [of _ bs], rule exI [of _ lbs], intro conjI)
    show "groupFeatures name fs = Some bs" by (fact bs)
    show "LandUse_groupFeatures fs = Some lbs" by (fact lbs)
    show "distinct (map fst bs)" by (fact d)
    show "map_of bs k =
           (if k \<in> ?key ` set fs then Some (filter (\<lambda>g. ?key g = k) fs) else None)"
      by (fact m)
    show "\<exists>b. map_of bs (?key f) = Some b \<and> f \<in> set b" by (fact own)
    show "\<forall>k' b. map_of bs k' = Some b \<and> f \<in> set b \<longrightarrow> k' = ?key f" by (fact only)
    show "map fst lbs = [''water'', ''forest'', ''agriculture'']" by (fact ks)
    show "map_of lbs k =
           (if k \<in> {''water'', ''forest'', ''agriculture''}
            then Some (filter (\<lambda>g. ?cls g = k) fs) else None)"
      by (fact lm)
    show "\<forall>k' b. map_of lbs k' = Some b \<and> f \<in> set b
             \<longrightarrow> k' = ?cls f \<and> k' \<in> {''water'', ''forest'', ''agriculture''}"
      by (fact lonly)
  qed
qed

theorem classification_buckets_witness:
  "exampleFeature ''class'' ''urban'' \<in> set [exampleFeature ''class'' ''water'', exampleFeature ''class'' ''urban'']
   \<and> groupable ''class'' [exampleFeature ''class'' ''water'', exampleFeature ''class'' ''urban'']
   \<and> groupFeatures ''class'' [exampleFeature ''class'' ''water'', exampleFeature ''class'' ''urban'']
       = Some [(''water'', [exampleFeature ''class'' ''water'']),
               (''urban'', [exampleFeature ''class'' ''urban''])]
   \<and> LandUse_groupFeatures [exampleFeature ''class'' ''water'', exampleFeature ''class'' ''urban'']
       = Some [(''water'', [exampleFeature ''class'' ''water'']), (''forest'', []),
               (''agriculture'', [])]"
proof -
  let ?fs = "[exampleFeature ''class'' ''water'', exampleFeature ''class'' ''urban'']"
  have mem: "exampleFeature ''class'' ''urban'' \<in> set ?fs"
    by simp
  have ok: "groupable ''class'' ?fs"
    by (simp add: groupable_simps example_keys not_inherited_examples)
  have run: "groupFeatures ''class'' ?fs
       = Some [(''water'', [exampleFeature ''class'' ''water'']),
               (''urban'', [exampleFeature ''class'' ''urban''])]"
    "LandUse_groupFeatures ?fs
       = Some [(''water'', [exampleFeature ''class'' ''water'']), (''forest'', []),
               (''agriculture'', [])]"
    by (simp_all add: groupFeatures_def groupStep_def LandUse_groupFeatures_def
        LandUse_groupStep_def jsGet_def Let_def example_keys not_inherited_examples)
  have name: "''class'' = ''class'' \<or> ''class'' = ''fra_type''"
    by simp
  from classification_buckets [OF mem name ok ok, of "''urban''"] mem ok run
  show ?thesis by simp
qed

text \<open>
  Claim C1 as stated fails for \<^verbatim>\<open>LandUseMap.processData\<close>: a feature of class
  \<^verbatim>\<open>urban\<close> and a feature without a class end in no bucket.
\<close>

theorem LandUse_drops_unknown_class_counterexample:
  "LandUse_groupFeatures [exampleFeature ''class'' ''urban'', \<lparr>geometry = ''Point'', properties = []\<rparr>]
     = Some [(''water'', []), (''forest'', []), (''agriculture'', [])]"
  by (simp add: LandUse_groupFeatures_def LandUse_groupStep_def jsGet_def exampleFeature_def
      getProp_def propertyKey_def inherited_def objectPrototypeNames_def)

section \<open>The loop that creates the layers\<close>

lemma India_createLayer_fields:
  "checkboxes (India_createLayer s b) = checkboxes s"
  "currentFilters (India_createLayer s b) = currentFilters s"
  "errors (India_createLayer s b) = errors s"
  "layerControls (India_createLayer s b) = layerControls s"
  by (cases b; simp add: India_createLayer_def Let_def split: option.splits)+

lemma India_createLayer_layers:
  "layers (India_createLayer s (k, fs)) =
     (if fs = [] then layers s else (layers s)(k \<mapsto> India_newLayer s k fs))"
  by (auto simp: India_createLayer_def Let_def geoJSON_def addLayer_def India_newLayer_def
      split: option.splits)

lemma India_createLayer_shown:
  "shown (India_createLayer s (k, fs)) =
     (if fs = [] \<or> shown s (''count-'' @ k) = None then shown s
      else (shown s)(''count-'' @ k \<mapsto> length fs))"
  by (auto simp: India_createLayer_def Let_def split: option.splits)

lemma India_fold_fields:
  "checkboxes (foldl India_createLayer s bs) = checkboxes s"
  "currentFilters (foldl India_createLayer s bs) = currentFilters s"
  "errors (foldl India_createLayer s bs) = errors s"
  "layerControls (foldl India_createLayer s bs) = layerControls s"
  by (induction bs arbitrary: s; simp add: India_createLayer_fields)+

lemma India_fold_layers:
  "distinct (map fst bs) \<Longrightarrow>
   layers (foldl India_createLayer s bs) k =
     (case map_of bs k of
        None \<Rightarrow> layers s k
      | Some fs \<Rightarrow> if fs = [] then layers s k else Some (India_newLayer s k fs))"
proof (induction bs arbitrary: s)
  case Nil
  show ?case by simp
next
  case (Cons b bs)
  obtain k' fs' where b: "b = (k', fs')" by (cases b)
  from Cons.prems b have notin: "map_of bs k' = None" and d: "distinct (map fst bs)"
    by (simp_all add: map_of_eq_None_iff)
  have same: "India_newLayer (India_createLayer s (k', fs')) k fs = India_newLayer s k fs" for fs
    by (simp add: India_newLayer_def India_createLayer_fields)
  show ?case
    using Cons.IH [OF d, of "India_createLayer s (k', fs')"] notin
    by (auto simp: b same India_createLayer_layers split: option.splits)
qed

lemma India_fold_shown:
  "distinct (map fst bs) \<Longrightarrow>
   shown (foldl India_createLayer s bs) (''count-'' @ k) =
     (case map_of bs k of
        None \<Rightarrow> shown s (''count-'' @ k)
      | Some fs \<Rightarrow> if fs = [] \<or> shown s (''count-'' @ k) = None then shown s (''count-'' @ k)
                  else Some (length fs))"
proof (induction bs arbitrary: s)
  case Nil
  show ?case by simp
next
  case (Cons b bs)
  obtain k' fs' where b: "b = (k', fs')" by (cases b)
  from Cons.prems b have notin: "map_of bs k' = None" and d: "distinct (map fst bs)"
    by (simp_all add: map_of_eq_None_iff)
  show ?case
    using Cons.IH [OF d, of "India_createLayer s (k', fs')"] notin
    by (auto simp: b India_createLayer_shown split: option.splits)
qed

lemma India_fold_shown_other:
  "i \<notin> (\<lambda>k. ''count-'' @ k) ` fst ` set bs \<Longrightarrow>
   shown (foldl India_createLayer s bs) i = shown s i"
proof (induction bs arbitrary: s)
  case Nil
  show ?case by simp
next
  case (Cons b bs)
  obtain k' fs' where b: "b = (k', fs')" by (cases b)
  from Cons.prems b have ne: "i \<noteq> ''count-'' @ k'"
    and rest: "i \<notin> (\<lambda>k. ''count-'' @ k) ` fst ` set bs"
    by auto
  show ?case
    using Cons.IH [OF rest, of "India_createLayer s (k', fs')"] ne
    by (simp add: b India_createLayer_shown)
qed

lemma FRA_createLayer_fields:
  "checkboxes (FRA_createLayer lower s b) = checkboxes s"
  "currentFilters (FRA_createLayer lower s b) = currentFilters s"
  "errors (FRA_createLayer lower s b) = errors s"
  "layerControls (FRA_createLayer lower s b) = layerControls s"
  "shown (FRA_createLayer lower s b) = shown s"
  by (cases b; simp add: FRA_createLayer_def Let_def)+

lemma FRA_createLayer_layers:
  "layers (FRA_createLayer lower s (k, fs)) =
     (if fs = [] then layers s else (layers s)(k \<mapsto> FRA_newLayer lower s k fs))"
  by (auto simp: FRA_createLayer_def Let_def geoJSON_def addLayer_def FRA_newLayer_def)

lemma FRA_fold_fields:
  "checkboxes (foldl (FRA_createLayer lower) s bs) = checkboxes s"
  "currentFilters (foldl (FRA_createLayer lower) s bs) = currentFilters s"
  "errors (foldl (FRA_createLayer lower) s bs) = errors s"
  "layerControls (foldl (FRA_createLayer lower) s bs) = layerControls s"
  "shown (foldl (FRA_createLayer lower) s bs) = shown s"
  by (induction bs arbitrary: s; simp add: FRA_createLayer_fields)+

lemma FRA_fold_layers:
  "distinct (map fst bs) \<Longrightarrow>
   layers (foldl (FRA_createLayer lower) s bs) k =
     (case map_of bs k of
        None \<Rightarrow> layers s k
      | Some fs \<Rightarrow> if fs = [] then layers s k else Some (FRA_newLayer lower s k fs))"
proof (induction bs arbitrary: s)
  case Nil
  show ?case by simp
next
  case (Cons b bs)
  obtain k' fs' where b: "b = (k', fs')" by (cases b)
  from Cons.prems b have notin: "map_of bs k' = None" and d: "distinct (map fst bs)"
    by (simp_all add: map_of_eq_None_iff)
  have same: "FRA_newLayer lower (FRA_createLayer lower s (k', fs')) k fs = FRA_newLayer lower s k fs" for fs
    by (simp add: FRA_newLayer_def FRA_createLayer_fields)
  show ?case
    using Cons.IH [OF d, of "FRA_createLayer lower s (k', fs')"] notin
    by (auto simp: b same FRA_createLayer_layers split: option.splits)
qed

lemma LandUse_createLayer_layers:
  "layers (LandUse_createLayer s (k, fs)) =
     (if fs = [] then layers s else (layers s)(k \<mapsto> geoJSON fs (LandUse_styleFor k)))"
  by (simp add: LandUse_createLayer_def)

lemma LandUse_fold_layers:
  "distinct (map fst bs) \<Longrightarrow>
   layers (foldl LandUse_createLayer s bs) k =
     (case map_of bs k of
        None \<Rightarrow> layers s k
      | Some fs \<Rightarrow> if fs = [] then layers s k else Some (geoJSON fs (LandUse_styleFor k)))"
proof (induction bs arbitrary: s)
  case Nil
  show ?case by simp
next
  case (Cons b bs)
  obtain k' fs' where b: "b = (k', fs')" by (cases b)
  from Cons.prems b have notin: "map_of bs k' = None" and d: "distinct (map fst bs)"
    by (simp_all add: map_of_eq_None_iff)
  show ?case
    using Cons.IH [OF d, of "LandUse_createLayer s (k', fs')"] notin
    by (auto simp: b LandUse_createLayer_layers split: option.splits)
qed

section \<open>The layers a reload registers\<close>

lemma India_processData_run:
  "pfeatures data = Some fs \<Longrightarrow> groupFeatures ''class'' fs = Some bs \<Longrightarrow>
   India_processData s data = (None, foldl India_createLayer (clearLayers s) bs)"
  by (simp add: India_processData_def)

lemma India_processData_throws:
  "pfeatures data = Some fs \<Longrightarrow> \<not> groupable ''class'' fs \<Longrightarrow>
   India_processData s data = (Some TypeError, clearLayers s)"
  by (simp add: India_processData_def groupFeatures_throws)

lemma India_processData_completes:
  "pfeatures data = Some fs \<Longrightarrow>
   (fst (India_processData s data) = None) = groupable ''class'' fs"
  using groupFeatures_buckets [of "''class''" fs]
  by (cases "groupable ''class'' fs") (auto simp: India_processData_def groupFeatures_throws)

lemma India_processData_layers:
  assumes "pfeatures data = Some fs" and "groupable ''class'' fs"
  shows "layers (snd (India_processData s data)) k =
     (if k \<in> (\<lambda>g. propertyKey (getProp ''class'' g)) ` set fs
      then Some (India_newLayer s k (filter (\<lambda>g. propertyKey (getProp ''class'' g) = k) fs))
      else None)"
proof -
  from groupFeatures_buckets [OF assms(2)]
  obtain bs where bs: "groupFeatures ''class'' fs = Some bs" by blast
  show ?thesis
    using filter_key_nonempty [of k "\<lambda>g. propertyKey (getProp ''class'' g)" fs]
    by (simp add: India_processData_run [OF assms(1) bs]
        India_fold_layers [OF groupFeatures_lookup(2) [OF bs]]
        groupFeatures_lookup(1) [OF bs] clearLayers_def India_newLayer_def)
qed

lemma FRA_processClaimsData_run:
  "pfeatures data = Some fs \<Longrightarrow> groupFeatures ''fra_type'' fs = Some bs \<Longrightarrow>
   FRA_processClaimsData lower s data = (None, foldl (FRA_createLayer lower) (clearLayers s) bs)"
  by (simp add: FRA_processClaimsData_def)

lemma FRA_processClaimsData_throws:
  "pfeatures data = Some fs \<Longrightarrow> \<not> groupable ''fra_type'' fs \<Longrightarrow>
   FRA_processClaimsData lower s data = (Some TypeError, clearLayers s)"
  by (simp add: FRA_processClaimsData_def groupFeatures_throws)

lemma FRA_processClaimsData_layers:
  assumes "pfeatures data = Some fs" and "groupable ''fra_type'' fs"
  shows "layers (snd (FRA_processClaimsData lower s data)) k =
     (if k \<in> (\<lambda>g. propertyKey (getProp ''fra_type'' g)) ` set fs
      then Some (FRA_newLayer lower s k
                  (filter (\<lambda>g. propertyKey (getProp ''fra_type'' g) = k) fs))
      else None)"
proof -
  from groupFeatures_buckets [OF assms(2)]
  obtain bs where bs: "groupFeatures ''fra_type'' fs = Some bs" by blast
  show ?thesis
    using filter_key_nonempty [of k "\<lambda>g. propertyKey (getProp ''fra_type'' g)" fs]
    by (simp add: FRA_processClaimsData_run [OF assms(1) bs]
        FRA_fold_layers [OF groupFeatures_lookup(2) [OF bs]]
        groupFeatures_lookup(1) [OF bs] clearLayers_def FRA_newLayer_def)
qed

lemma LandUse_processData_throws:
  "pfeatures data = Some fs \<Longrightarrow> \<not> groupable ''class'' fs \<Longrightarrow>
   LandUse_processData s data = (Some TypeError, s)"
  by (simp add: LandUse_processData_def LandUse_groupFeatures_throws)

lemma LandUse_processData_layers:
  assumes "pfeatures data = Some fs" and "groupable ''class'' fs" and "layers s = Map.empty"
  shows "layers (snd (LandUse_processData s data)) k =
     (if k \<in> {''water'', ''forest'', ''agriculture''}
         \<and> filter (\<lambda>g. propertyKey (getProp ''class'' g) = k) fs \<noteq> []
      then Some \<lparr>lfeatures = filter (\<lambda>g. propertyKey (getProp ''class'' g) = k) fs,
                 lstyle = LandUse_styleFor k, onMap = True\<rparr>
      else None)"
proof -
  from LandUse_groupFeatures_buckets [OF assms(2)]
  obtain bs where bs: "LandUse_groupFeatures fs = Some bs" by blast
  show ?thesis
    by (simp add: LandUse_processData_def assms(1,3) bs showAllLayers_def
        LandUse_fold_layers [OF LandUse_groupFeatures_lookup(3) [OF bs]]
        LandUse_groupFeatures_lookup(1) [OF bs] geoJSON_def addLayer_def)
qed

lemma India_processData_fields:
  "checkboxes (snd (India_processData s data)) = checkboxes s"
  "currentFilters (snd (India_processData s data)) = currentFilters s"
  by (simp_all add: India_processData_def India_fold_fields clearLayers_def Let_def split: option.splits)

lemma FRA_processClaimsData_fields:
  "checkboxes (snd (FRA_processClaimsData lower s data)) = checkboxes s"
  "currentFilters (snd (FRA_processClaimsData lower s data)) = currentFilters s"
  "shown (snd (FRA_processClaimsData lower s data)) = shown s"
  by (simp_all add: FRA_processClaimsData_def FRA_fold_fields clearLayers_def Let_def split: option.splits)

lemma India_processData_feature_count:
  "shown (snd (India_processData s data)) ''feature-count'' = shown s ''feature-count''"
  by (simp add: India_processData_def India_fold_shown_other clearLayers_def image_iff Let_def
      split: option.splits)

lemma India_processData_shown:
  assumes "pfeatures data = Some fs" and "groupable ''class'' fs"
  shows "shown (snd (India_processData s data)) (''count-'' @ k) =
     (if k \<in> (\<lambda>g. propertyKey (getProp ''class'' g)) ` set fs \<and> shown s (''count-'' @ k) \<noteq> None
      then Some (length (filter (\<lambda>g. propertyKey (getProp ''class'' g) = k) fs))
      else shown s (''count-'' @ k))"
proof -
  from groupFeatures_buckets [OF assms(2)]
  obtain bs where bs: "groupFeatures ''class'' fs = Some bs" by blast
  have "snd (India_processData s data) = foldl India_createLayer (clearLayers s) bs"
    by (simp add: India_processData_run [OF assms(1) bs])
  then have "shown (snd (India_processData s data)) (''count-'' @ k) =
      shown (foldl India_createLayer (clearLayers s) bs) (''count-'' @ k)"
    by (rule arg_cong)
  also have "\<dots> = (case map_of bs k of
        None \<Rightarrow> shown (clearLayers s) (''count-'' @ k)
      | Some b \<Rightarrow> if b = [] \<or> shown (clearLayers s) (''count-'' @ k) = None
                  then shown (clearLayers s) (''count-'' @ k) else Some (length b))"
    by (rule India_fold_shown [OF groupFeatures_lookup(2) [OF bs]])
  also have "\<dots> = (if k \<in> (\<lambda>g. propertyKey (getProp ''class'' g)) ` set fs
        \<and> shown s (''count-'' @ k) \<noteq> None
      then Some (length (filter (\<lambda>g. propertyKey (getProp ''class'' g) = k) fs))
      else shown s (''count-'' @ k))"
    using filter_key_nonempty [of k "\<lambda>g. propertyKey (getProp ''class'' g)" fs]
    by (simp add: groupFeatures_lookup(1) [OF bs] clearLayers_def)
  finally show ?thesis .
qed

section \<open>Styles\<close>

lemma styleFor_defined:
  "\<not> inherited k \<Longrightarrow> India_styleFor k = Some (case map_of India_classStyles k of
       Some st \<Rightarrow> st | None \<Rightarrow> mkStyle ''#9900cc'' (8 / 10) 3)"
  "\<not> inherited k \<Longrightarrow> FRA_styleFor k = Some (case map_of fraTypeStyles k of
       Some st \<Rightarrow> st | None \<Rightarrow> mkStyle ''#007bff'' (7 / 10) 2)"
  by (simp_all add: India_styleFor_def FRA_styleFor_def jsGet_def India_classStyles_def
      fraTypeStyles_def split: option.splits)

lemma LandUse_styleFor_known:
  "k \<in> {''water'', ''forest'', ''agriculture''} \<Longrightarrow> LandUse_styleFor k = map_of LandUse_classStyles k"
  by (auto simp: LandUse_styleFor_def jsGet_def LandUse_classStyles_def)

lemma category_not_inherited:
  "groupable name fs \<Longrightarrow> k \<in> (\<lambda>g. propertyKey (getProp name g)) ` set fs \<Longrightarrow> \<not> inherited k"
  by (auto simp: groupable_iff)

text \<open>
  Claim C8, as the code has it. For data in which no category is an inherited name,
  \<^verbatim>\<open>IndiaLandUseMap.processData\<close> and \<^verbatim>\<open>FRAWebGIS.processClaimsData\<close> register, for
  every category of the data, a layer of its features whose style is the table's entry
  for the category, or the fallback entry when the table has none (\<^verbatim>\<open>fra_area\<close>,
  \<^verbatim>\<open>IFR\<close>): never an undefined style. \<^verbatim>\<open>LandUseMap.processData\<close> looks the style up
  with no fallback; it registers a layer for water, forest and agriculture only, each
  with the table's entry, which is defined, and no layer for any other category.
\<close>

theorem registered_layer_style:
  assumes "pfeatures data = Some fs" and "groupable ''class'' fs" and "groupable ''fra_type'' fs"
  shows "layers (snd (India_processData s data)) k =
           (if k \<in> (\<lambda>g. propertyKey (getProp ''class'' g)) ` set fs
            then Some \<lparr>lfeatures = filter (\<lambda>g. propertyKey (getProp ''class'' g) = k) fs,
                       lstyle = Some (case map_of India_classStyles k of
                                        Some st \<Rightarrow> st
                                      | None \<Rightarrow> mkStyle ''#9900cc'' (8 / 10) 3),
                       onMap = (checkboxes s (''layer-'' @ k) = Some True)\<rparr>
            else None)
       \<and> layers (snd (FRA_processClaimsData lower s data)) k =
           (if k \<in> (\<lambda>g. propertyKey (getProp ''fra_type'' g)) ` set fs
            then Some \<lparr>lfeatures = filter (\<lambda>g. propertyKey (getProp ''fra_type'' g) = k) fs,
                       lstyle = Some (case map_of fraTypeStyles k of
                                        Some st \<Rightarrow> st
                                      | None \<Rightarrow> mkStyle ''#007bff'' (7 / 10) 2),
                       onMap = (checkboxes s (''layer-'' @ lower k) = Some True)\<rparr>
            else None)
       \<and> (layers s = Map.empty \<longrightarrow>
            layers (snd (LandUse_processData s data)) k =
              (if k \<in> {''water'', ''forest'', ''agriculture''}
                  \<and> filter (\<lambda>g. propertyKey (getProp ''class'' g) = k) fs \<noteq> []
               then Some \<lparr>lfeatures = filter (\<lambda>g. propertyKey (getProp ''class'' g) = k) fs,
                          lstyle = map_of LandUse_classStyles k, onMap = True\<rparr>
               else None))
       \<and> map_of LandUse_classStyles ''water'' = Some (mkStyle ''#0066cc'' (7 / 10) 2)
       \<and> map_of LandUse_classStyles ''forest'' = Some (mkStyle ''#00aa00'' (7 / 10) 2)
       \<and> map_of LandUse_classStyles ''agriculture'' = Some (mkStyle ''#ffaa00'' (7 / 10) 2)"
proof -
  have india: "layers (snd (India_processData s data)) k =
           (if k \<in> (\<lambda>g. propertyKey (getProp ''class'' g)) ` set fs
            then Some \<lparr>lfeatures = filter (\<lambda>g. propertyKey (getProp ''class'' g) = k) fs,
                       lstyle = Some (case map_of India_classStyles k of
                                        Some st \<Rightarrow> st
                                      | None \<Rightarrow> mkStyle ''#9900cc'' (8 / 10) 3),
                       onMap = (checkboxes s (''layer-'' @ k) = Some True)\<rparr>
            else None)"
    using styleFor_defined(1) [OF category_not_inherited [OF assms(2)], of k]
    by (simp add: India_processData_layers [OF assms(1,2)] India_newLayer_def)
  have fra: "layers (snd (FRA_processClaimsData lower s data)) k =
           (if k \<in> (\<lambda>g. propertyKey (getProp ''fra_type'' g)) ` set fs
            then Some \<lparr>lfeatures = filter (\<lambda>g. propertyKey (getProp ''fra_type'' g) = k) fs,
                       lstyle = Some (case map_of fraTypeStyles k of
                                        Some st \<Rightarrow> st
                                      | None \<Rightarrow> mkStyle ''#007bff'' (7 / 10) 2),
                       onMap = (checkboxes s (''layer-'' @ lower k) = Some True)\<rparr>
            else None)"
    using styleFor_defined(2) [OF category_not_inherited [OF assms(3)], of k]
    by (simp add: FRA_processClaimsData_layers [OF assms(1,3)] FRA_newLayer_def)
  have landuse: "layers s = Map.empty \<longrightarrow>
            layers (snd (LandUse_processData s data)) k =
              (if k \<in> {''water'', ''forest'', ''agriculture''}
                  \<and> filter (\<lambda>g. propertyKey (getProp ''class'' g) = k) fs \<noteq> []
               then Some \<lparr>lfeatures = filter (\<lambda>g. propertyKey (getProp ''class'' g) = k) fs,
                          lstyle = map_of LandUse_classStyles k, onMap = True\<rparr>
               else None)"
  proof
    assume e: "layers s = Map.empty"
    show "layers (snd (LandUse_processData s data)) k =
              (if k \<in> {''water'', ''forest'', ''agriculture''}
                  \<and> filter (\<lambda>g. propertyKey (getProp ''class'' g) = k) fs \<noteq> []
               then Some \<lparr>lfeatures = filter (\<lambda>g. propertyKey (getProp ''class'' g) = k) fs,
                          lstyle = map_of LandUse_classStyles k, onMap = True\<rparr>
               else None)"
      using LandUse_styleFor_known [of k]
      by (simp add: LandUse_processData_layers [OF assms(1,2) e])
  qed
  have table: "map_of LandUse_classStyles ''water'' = Some (mkStyle ''#0066cc'' (7 / 10) 2)"
    "map_of LandUse_classStyles ''forest'' = Some (mkStyle ''#00aa00'' (7 / 10) 2)"
    "map_of LandUse_classStyles ''agriculture'' = Some (mkStyle ''#ffaa00'' (7 / 10) 2)"
    by (simp_all add: LandUse_classStyles_def)
  from india fra landuse table show ?thesis by (intro conjI)
qed

theorem registered_layer_style_witness:
  "pfeatures \<lparr>perror = None, pfeatures = Some [exampleFeature ''class'' ''scrub'']\<rparr>
     = Some [exampleFeature ''class'' ''scrub'']
   \<and> groupable ''class'' [exampleFeature ''class'' ''scrub'']
   \<and> groupable ''fra_type'' [exampleFeature ''class'' ''scrub'']
   \<and> layers LandUse_examplePage = Map.empty
   \<and> map_of India_classStyles ''scrub'' = None
   \<and> layers (snd (India_processData India_examplePage
        \<lparr>perror = None, pfeatures = Some [exampleFeature ''class'' ''scrub'']\<rparr>)) ''scrub''
       = Some \<lparr>lfeatures = [exampleFeature ''class'' ''scrub''],
               lstyle = Some (mkStyle ''#9900cc'' (8 / 10) 3), onMap = False\<rparr>
   \<and> layers (snd (FRA_processClaimsData asciiLowerCase FRA_examplePage
        \<lparr>perror = None, pfeatures = Some [exampleFeature ''class'' ''scrub'']\<rparr>)) ''undefined''
       = Some \<lparr>lfeatures = [exampleFeature ''class'' ''scrub''],
               lstyle = Some (mkStyle ''#007bff'' (7 / 10) 2), onMap = False\<rparr>
   \<and> layers (snd (LandUse_processData LandUse_examplePage
        \<lparr>perror = None, pfeatures = Some [exampleFeature ''class'' ''scrub'']\<rparr>)) ''scrub''
       = None
   \<and> layers (snd (LandUse_processData LandUse_examplePage
        \<lparr>perror = None, pfeatures = Some [exampleFeature ''class'' ''water'']\<rparr>)) ''water''
       = Some \<lparr>lfeatures = [exampleFeature ''class'' ''water''],
               lstyle = Some (mkStyle ''#0066cc'' (7 / 10) 2), onMap = True\<rparr>"
proof -
  let ?ws = "[exampleFeature ''class'' ''water'']"
  let ?W = "\<lparr>perror = None, pfeatures = Some ?ws\<rparr>"
  have wfeats: "pfeatures ?W = Some ?ws" by simp
  have wkeys: "propertyKey (getProp ''fra_type'' (exampleFeature ''class'' ''water'')) = ''undefined''"
    by (simp add: exampleFeature_def getProp_def propertyKey_def)
  have wok: "groupable ''class'' ?ws" "groupable ''fra_type'' ?ws"
    by (simp_all add: groupable_simps example_keys wkeys not_inherited_examples)
  let ?fs = "[exampleFeature ''class'' ''scrub'']"
  let ?D = "\<lparr>perror = None, pfeatures = Some ?fs\<rparr>"
  have feats: "pfeatures ?D = Some ?fs" by simp
  have keys: "propertyKey (getProp ''fra_type'' (exampleFeature ''class'' ''scrub'')) = ''undefined''"
    by (simp add: exampleFeature_def getProp_def propertyKey_def)
  have ok: "groupable ''class'' ?fs" "groupable ''fra_type'' ?fs"
    by (simp_all add: groupable_simps example_keys keys not_inherited_examples)
  have empty: "layers LandUse_examplePage = Map.empty"
    by (simp add: LandUse_examplePage_def)
  have tab: "map_of India_classStyles ''scrub'' = None" "map_of fraTypeStyles ''undefined'' = None"
    by (simp_all add: India_classStyles_def fraTypeStyles_def)
  have boxes: "checkboxes India_examplePage (''layer-'' @ ''scrub'') = None"
    "checkboxes FRA_examplePage (''layer-'' @ asciiLowerCase ''undefined'') = None"
    by (simp_all add: India_examplePage_def FRA_examplePage_def asciiLowerCase_def lowerChar_def)
  from registered_layer_style [OF feats ok, of India_examplePage "''scrub''" asciiLowerCase]
    registered_layer_style [OF feats ok, of FRA_examplePage "''undefined''" asciiLowerCase]
    registered_layer_style [OF feats ok, of LandUse_examplePage "''scrub''" asciiLowerCase]
    registered_layer_style [OF wfeats wok, of LandUse_examplePage "''water''" asciiLowerCase]
    feats ok empty tab boxes
  show ?thesis by (simp add: example_keys keys)
qed

text \<open>
  Claim C8 as stated fails for \<^verbatim>\<open>LandUseMap\<close>: the class \<^verbatim>\<open>urban\<close> has no entry in
  its table, the lookup gives no style and there is no fallback; \<^verbatim>\<open>processData\<close>
  renders nothing for it and leaves the page as it was.
\<close>

theorem LandUse_no_fallback_style_counterexample:
  "LandUse_styleFor ''urban'' = None
   \<and> LandUse_processData LandUse_examplePage
        \<lparr>perror = None, pfeatures = Some [exampleFeature ''class'' ''urban'']\<rparr>
       = (None, LandUse_examplePage)"
  by (simp add: LandUse_styleFor_def LandUse_classStyles_def jsGet_def inherited_def
      objectPrototypeNames_def LandUse_processData_def LandUse_groupFeatures_def
      LandUse_groupStep_def LandUse_createLayer_def showAllLayers_def LandUse_examplePage_def
      example_keys Let_def)

section \<open>The loaders, case by case\<close>

lemma updateFeatureCount_fields:
  "layers (updateFeatureCount n s) = layers s"
  "checkboxes (updateFeatureCount n s) = checkboxes s"
  "currentFilters (updateFeatureCount n s) = currentFilters s"
  "shown (updateFeatureCount n s) ''feature-count'' = map_option (\<lambda>_. n) (shown s ''feature-count'')"
  "i \<noteq> ''feature-count'' \<Longrightarrow> shown (updateFeatureCount n s) i = shown s i"
  by (simp_all add: updateFeatureCount_def split: option.splits)

lemma showError_fields:
  "layers (showError e s) = layers s"
  "checkboxes (showError e s) = checkboxes s"
  "currentFilters (showError e s) = currentFilters s"
  "shown (showError e s) = shown s"
  by (simp_all add: showError_def)

lemma count_id_not_feature_count: "''count-'' @ k \<noteq> ''feature-count''"
  by simp

lemma India_loadData_success:
  "\<not> truthyOpt (perror data) \<Longrightarrow> pfeatures data = Some fs \<Longrightarrow> groupable ''class'' fs \<Longrightarrow>
   India_loadData_resume s (Response ok status (Some data))
     = updateFeatureCount (length fs) (snd (India_processData s data))"
  using groupFeatures_buckets [of "''class''" fs]
  by (auto simp: India_loadData_resume_def India_processData_def)

text \<open>
  It has no check of \<^verbatim>\<open>features\<close>: on a payload without it, \<^verbatim>\<open>processData\<close> clears
  the layers and then throws. The same happens when the grouping throws.
\<close>

lemma India_loadData_missing_features:
  "\<not> truthyOpt (perror data) \<Longrightarrow> pfeatures data = None \<Longrightarrow>
   India_loadData_resume s (Response ok status (Some data)) = showError TypeError (clearLayers s)"
  by (simp add: India_loadData_resume_def India_processData_def)

lemma India_loadData_throws:
  "\<not> truthyOpt (perror data) \<Longrightarrow> pfeatures data = Some fs \<Longrightarrow> \<not> groupable ''class'' fs \<Longrightarrow>
   India_loadData_resume s (Response ok status (Some data)) = showError TypeError (clearLayers s)"
  by (simp add: India_loadData_resume_def India_processData_throws)

lemma India_loadData_cases:
  obtains e where "India_loadData_resume s r = showError e s"
  | e where "India_loadData_resume s r = showError e (clearLayers s)"
  | ok status data fs where "r = Response ok status (Some data)" "\<not> truthyOpt (perror data)"
      "pfeatures data = Some fs" "groupable ''class'' fs"
      "India_loadData_resume s r = updateFeatureCount (length fs) (snd (India_processData s data))"
proof (cases r)
  case Rejected
  then have "India_loadData_resume s r = showError NetworkError s"
    by (simp add: India_loadData_resume_def)
  then show ?thesis by (rule that(1))
next
  case (Response ok status body)
  show ?thesis
  proof (cases body)
    case None
    with Response have "India_loadData_resume s r = showError SyntaxError s"
      by (simp add: India_loadData_resume_def)
    then show ?thesis by (rule that(1))
  next
    case (Some data)
    with Response have r: "r = Response ok status (Some data)" by simp
    show ?thesis
    proof (cases "truthyOpt (perror data)")
      case True
      with r have "India_loadData_resume s r = showError (ServerError (errorMessage data)) s"
        by (simp add: India_loadData_resume_def)
      then show ?thesis by (rule that(1))
    next
      case False
      show ?thesis
      proof (cases "pfeatures data")
        case None
        from India_loadData_missing_features [OF False None] r
        have "India_loadData_resume s r = showError TypeError (clearLayers s)" by simp
        then show ?thesis by (rule that(2))
      next
        case (Some fs)
        show ?thesis
        proof (cases "groupable ''class'' fs")
          case True
          from India_loadData_success [OF False Some True] r
          have "India_loadData_resume s r
              = updateFeatureCount (length fs) (snd (India_processData s data))"
            by simp
          with r False Some True show ?thesis by (rule that(3))
        next
          case nogroup: False
          from India_loadData_throws [OF False Some nogroup] r
          have "India_loadData_resume s r = showError TypeError (clearLayers s)" by simp
          then show ?thesis by (rule that(2))
        qed
      qed
    qed
  qed
qed

lemma India_loadData_frame:
  "checkboxes (India_loadData_resume s r) = checkboxes s"
  "currentFilters (India_loadData_resume s r) = currentFilters s"
  "(shown (India_loadData_resume s r) ''feature-count'' = None) = (shown s ''feature-count'' = None)"
  by (rule India_loadData_cases [of s r];
      simp add: showError_fields clearLayers_def updateFeatureCount_fields India_processData_fields
        India_processData_feature_count)+

lemma FRA_loadClaims_success:
  "\<not> truthyOpt (perror data) \<Longrightarrow> pfeatures data = Some fs \<Longrightarrow> groupable ''fra_type'' fs \<Longrightarrow>
   FRA_loadClaims_resume lower s (Response True status (Some data))
     = updateFeatureCount (length fs) (snd (FRA_processClaimsData lower s data))"
  using groupFeatures_buckets [of "''fra_type''" fs]
  by (auto simp: FRA_loadClaims_resume_def FRA_processClaimsData_def)

lemma FRA_loadClaims_throws:
  "\<not> truthyOpt (perror data) \<Longrightarrow> pfeatures data = Some fs \<Longrightarrow> \<not> groupable ''fra_type'' fs \<Longrightarrow>
   FRA_loadClaims_resume lower s (Response True status (Some data))
     = showError TypeError (clearLayers s)"
  by (simp add: FRA_loadClaims_resume_def FRA_processClaimsData_throws)

lemma FRA_loadClaims_cases:
  obtains e where "FRA_loadClaims_resume lower s r = showError e s"
  | e where "FRA_loadClaims_resume lower s r = showError e (clearLayers s)"
  | status data fs where "r = Response True status (Some data)" "\<not> truthyOpt (perror data)"
      "pfeatures data = Some fs" "groupable ''fra_type'' fs"
      "FRA_loadClaims_resume lower s r
         = updateFeatureCount (length fs) (snd (FRA_processClaimsData lower s data))"
proof (cases "\<exists>status data fs. r = Response True status (Some data) \<and> \<not> truthyOpt (perror data)
    \<and> pfeatures data = Some fs")
  case True
  then obtain status data fs where r: "r = Response True status (Some data)"
    and e: "\<not> truthyOpt (perror data)" and f: "pfeatures data = Some fs"
    by blast
  show ?thesis
  proof (cases "groupable ''fra_type'' fs")
    case True
    from FRA_loadClaims_success [OF e f True] r
    have "FRA_loadClaims_resume lower s r
        = updateFeatureCount (length fs) (snd (FRA_processClaimsData lower s data))"
      by simp
    with r e f True show ?thesis by (rule that(3))
  next
    case False
    from FRA_loadClaims_throws [OF e f False] r
    have "FRA_loadClaims_resume lower s r = showError TypeError (clearLayers s)" by simp
    then show ?thesis by (rule that(2))
  qed
next
  case False
  then have "\<exists>e. FRA_loadClaims_resume lower s r = showError e s"
    by (auto simp: FRA_loadClaims_resume_def split: fetched.splits option.splits)
  then show ?thesis using that(1) by blast
qed

lemma FRA_loadClaims_frame:
  "checkboxes (FRA_loadClaims_resume lower s r) = checkboxes s"
  "currentFilters (FRA_loadClaims_resume lower s r) = currentFilters s"
  "(shown (FRA_loadClaims_resume lower s r) ''feature-count'' = None) = (shown s ''feature-count'' = None)"
  by (rule FRA_loadClaims_cases [of lower s r];
      simp add: showError_fields clearLayers_def updateFeatureCount_fields FRA_processClaimsData_fields)+

text \<open>
  Five features, three of class \<^verbatim>\<open>forest_dense\<close> and two of class \<^verbatim>\<open>urban\<close>: the
  layers then hold 3, 2 and, for any other category, 0 features.
\<close>

lemma India_countOf_scenario:
  "countOf (India_loadData_resume India_examplePage
      (okPayload [exampleFeature ''class'' ''forest_dense'', exampleFeature ''class'' ''urban'',
                  exampleFeature ''class'' ''forest_dense'', exampleFeature ''class'' ''urban'',
                  exampleFeature ''class'' ''forest_dense''])) cat
     = (if cat = ''forest_dense'' then 3 else if cat = ''urban'' then 2 else 0)"
proof -
  let ?fs = "[exampleFeature ''class'' ''forest_dense'', exampleFeature ''class'' ''urban'',
                  exampleFeature ''class'' ''forest_dense'', exampleFeature ''class'' ''urban'',
                  exampleFeature ''class'' ''forest_dense'']"
  let ?D = "\<lparr>perror = None, pfeatures = Some ?fs\<rparr>"
  have ok: "groupable ''class'' ?fs"
    by (simp add: groupable_simps example_keys not_inherited_examples)
  have run: "India_loadData_resume India_examplePage (okPayload ?fs)
      = updateFeatureCount (length ?fs) (snd (India_processData India_examplePage ?D))"
    unfolding okPayload_def by (rule India_loadData_success) (simp_all add: truthyOpt_def ok)
  show ?thesis
    unfolding run countOf_def updateFeatureCount_fields
    by (simp add: India_processData_layers [of ?D ?fs, OF _ ok] example_keys India_newLayer_def)
qed

section \<open>A reload that fails\<close>

text \<open>
  \<^verbatim>\<open>FRAWebGIS.loadClaims\<close> reports and changes nothing else when the fetch rejects, the
  response is not \<^verbatim>\<open>ok\<close>, the body is not JSON, the payload carries a truthy
  \<^verbatim>\<open>error\<close>, or its \<^verbatim>\<open>features\<close> is missing or not an array.
\<close>

lemma FRA_loadClaims_failure_keeps_state:
  assumes "r = Rejected \<or> r = Response False status body \<or> r = Response True status None
     \<or> (r = Response True status (Some data) \<and> (truthyOpt (perror data) \<or> pfeatures data = None))"
  shows "\<exists>e. FRA_loadClaims_resume lower s r = showError e s"
  using assms by (auto simp: FRA_loadClaims_resume_def split: option.splits)

text \<open>
  \<^verbatim>\<open>IndiaLandUseMap.loadData\<close> does the same when the fetch rejects, the body is not
  JSON or the payload carries a truthy \<^verbatim>\<open>error\<close>.
\<close>

lemma India_loadData_failure_keeps_state:
  assumes "r = Rejected \<or> r = Response ok status None
     \<or> (r = Response ok status (Some data) \<and> truthyOpt (perror data))"
  shows "\<exists>e. India_loadData_resume s r = showError e s"
  using assms by (auto simp: India_loadData_resume_def split: option.splits)

text \<open>
  Claim C2 at a payload with neither \<^verbatim>\<open>error\<close> nor \<^verbatim>\<open>features\<close>, in
  \<^verbatim>\<open>IndiaLandUseMap\<close>: the page shows one water feature, the reload answers \<^verbatim>\<open>{}\<close>,
  and the water layer is gone.
\<close>

theorem India_loadData_missing_features_clears_layers:
  "countOf (India_loadData_resume India_examplePage
        (okPayload [exampleFeature ''class'' ''water''])) ''water'' = 1
   \<and> countOf (India_loadData_resume
        (India_loadData_resume India_examplePage (okPayload [exampleFeature ''class'' ''water'']))
        (Response True 200 (Some \<lparr>perror = None, pfeatures = None\<rparr>))) ''water'' = 0"
  by (simp add: example_defs run_defs)

section \<open>Counters after a reload\<close>

text \<open>
  \<^verbatim>\<open>loadLayers\<close> makes the example page: a checkbox and a counter at 0 for each layer
  of the answer.
\<close>

lemma India_examplePage_loadLayers:
  "India_loadLayers_resume India_blankPage
     (Response True 200 (Some [(''water'', \<lparr>lname = ''Water'', lvisible = True\<rparr>),
                               (''urban'', \<lparr>lname = ''Urban'', lvisible = True\<rparr>)]))
     = India_examplePage"
  by (simp add: India_loadLayers_resume_def clearLayerControls_def addLayerControl_def
      India_blankPage_def India_examplePage_def fun_eq_iff)

text \<open>
  Claim C10. A reload of \<^verbatim>\<open>IndiaLandUseMap\<close> whose answer has features and no error
  writes the counter \<^verbatim>\<open>count-<category>\<close> only for the categories of the new data. For
  a category with no feature in the new data the counter shows what it showed before the
  reload (it is not reset to 0), although the category has no layer any more. When
  \<^verbatim>\<open>processData\<close> runs to its end (no category is an inherited name), the counter of a
  category of the new data, if it exists, shows the number of its features.
\<close>

theorem reload_keeps_count_of_absent_category:
  assumes "pfeatures data = Some fs" and "\<not> truthyOpt (perror data)"
    and "k \<notin> (\<lambda>g. propertyKey (getProp ''class'' g)) ` set fs"
  shows "shown (India_loadData_resume s (Response ok status (Some data))) (''count-'' @ k)
           = shown s (''count-'' @ k)
       \<and> countOf (India_loadData_resume s (Response ok status (Some data))) k = 0
       \<and> (groupable ''class'' fs
            \<and> k' \<in> (\<lambda>g. propertyKey (getProp ''class'' g)) ` set fs
            \<and> shown s (''count-'' @ k') \<noteq> None \<longrightarrow>
          shown (India_loadData_resume s (Response ok status (Some data))) (''count-'' @ k')
            = Some (length (filter (\<lambda>g. propertyKey (getProp ''class'' g) = k') fs)))"
proof (cases "groupable ''class'' fs")
  case True
  let ?s' = "India_loadData_resume s (Response ok status (Some data))"
  have run: "?s' = updateFeatureCount (length fs) (snd (India_processData s data))"
    using assms(1,2) True by (simp add: India_loadData_success)
  have sh: "shown ?s' (''count-'' @ j) = shown (snd (India_processData s data)) (''count-'' @ j)" for j
    unfolding run by (rule updateFeatureCount_fields(5)) (rule count_id_not_feature_count)
  have kept: "shown ?s' (''count-'' @ k) = shown s (''count-'' @ k)"
    unfolding sh India_processData_shown [OF assms(1) True] using assms(3) by simp
  have gone: "countOf ?s' k = 0"
    unfolding run using assms(3)
    by (simp add: countOf_def updateFeatureCount_fields India_processData_layers [OF assms(1) True])
  have new: "groupable ''class'' fs
            \<and> k' \<in> (\<lambda>g. propertyKey (getProp ''class'' g)) ` set fs
            \<and> shown s (''count-'' @ k') \<noteq> None \<longrightarrow>
          shown ?s' (''count-'' @ k')
            = Some (length (filter (\<lambda>g. propertyKey (getProp ''class'' g) = k') fs))"
    unfolding sh India_processData_shown [OF assms(1) True] by simp
  from kept gone new show ?thesis by blast
next
  case False
  have run: "India_loadData_resume s (Response ok status (Some data))
      = showError TypeError (clearLayers s)"
    by (rule India_loadData_throws [OF assms(2,1) False])
  show ?thesis
    unfolding run using False
    by (simp add: showError_def clearLayers_def countOf_def)
qed

theorem reload_keeps_count_of_absent_category_witness:
  "pfeatures \<lparr>perror = None, pfeatures = Some [exampleFeature ''class'' ''urban'']\<rparr>
     = Some [exampleFeature ''class'' ''urban'']
   \<and> \<not> truthyOpt (perror \<lparr>perror = None, pfeatures = Some [exampleFeature ''class'' ''urban'']\<rparr>)
   \<and> ''water'' \<notin> (\<lambda>g. propertyKey (getProp ''class'' g)) ` set [exampleFeature ''class'' ''urban'']
   \<and> groupable ''class'' [exampleFeature ''class'' ''urban'']
   \<and> shown (India_loadData_resume India_examplePage (okPayload [exampleFeature ''class'' ''water'']))
        ''count-water'' = Some 1
   \<and> shown (India_loadData_resume
          (India_loadData_resume India_examplePage (okPayload [exampleFeature ''class'' ''water'']))
          (okPayload [exampleFeature ''class'' ''urban''])) ''count-water'' = Some 1
   \<and> countOf (India_loadData_resume
          (India_loadData_resume India_examplePage (okPayload [exampleFeature ''class'' ''water'']))
          (okPayload [exampleFeature ''class'' ''urban''])) ''water'' = 0
   \<and> shown (India_loadData_resume
          (India_loadData_resume India_examplePage (okPayload [exampleFeature ''class'' ''water'']))
          (okPayload [exampleFeature ''class'' ''urban''])) ''count-urban'' = Some 1"
proof -
  let ?D = "\<lparr>perror = None, pfeatures = Some [exampleFeature ''class'' ''urban'']\<rparr>"
  let ?s1 = "India_loadData_resume India_examplePage (okPayload [exampleFeature ''class'' ''water''])"
  have feats: "pfeatures ?D = Some [exampleFeature ''class'' ''urban'']" by simp
  have noerr: "\<not> truthyOpt (perror ?D)" by (simp add: truthyOpt_def)
  have absent: "''water'' \<notin> (\<lambda>g. propertyKey (getProp ''class'' g)) ` set [exampleFeature ''class'' ''urban'']"
    by (simp add: example_keys)
  have present: "''urban'' \<in> (\<lambda>g. propertyKey (getProp ''class'' g)) ` set [exampleFeature ''class'' ''urban'']"
    by (simp add: example_keys)
  have ok: "groupable ''class'' [exampleFeature ''class'' ''urban'']"
    by (simp add: groupable_simps example_keys not_inherited_examples)
  have before: "shown ?s1 ''count-water'' = Some 1" "shown ?s1 ''count-urban'' = Some 0"
    by (simp_all add: example_defs run_defs)
  from reload_keeps_count_of_absent_category [OF feats noerr absent, of ?s1 True 200 "''urban''"]
    feats noerr absent present ok before
  show ?thesis by (simp add: okPayload_def)
qed

section \<open>Two reloads in flight: the last answer wins\<close>

lemma India_processData_layers_cong:
  assumes "pfeatures data = Some fs" and "groupable ''class'' fs" and "checkboxes t = checkboxes s"
  shows "layers (snd (India_processData t data)) = layers (snd (India_processData s data))"
proof
  fix k
  show "layers (snd (India_processData t data)) k = layers (snd (India_processData s data)) k"
    unfolding India_processData_layers [OF assms(1,2)]
    by (simp add: India_newLayer_def assms(3))
qed

lemma FRA_processClaimsData_layers_cong:
  assumes "pfeatures data = Some fs" and "groupable ''fra_type'' fs" and "checkboxes t = checkboxes s"
  shows "layers (snd (FRA_processClaimsData lower t data)) = layers (snd (FRA_processClaimsData lower s data))"
proof
  fix k
  show "layers (snd (FRA_processClaimsData lower t data)) k = layers (snd (FRA_processClaimsData lower s data)) k"
    unfolding FRA_processClaimsData_layers [OF assms(1,2)]
    by (simp add: FRA_newLayer_def assms(3))
qed

lemma map_option_const_cong:
  "(x = None) = (y = None) \<Longrightarrow> map_option (\<lambda>_. n) x = map_option (\<lambda>_. n) y"
  by (cases x; cases y) simp_all

lemma India_last_response:
  assumes "\<not> truthyOpt (perror data)" and "pfeatures data = Some fs" and "groupable ''class'' fs"
    and "checkboxes t = checkboxes s"
    and "(shown t ''feature-count'' = None) = (shown s ''feature-count'' = None)"
  shows "layers (India_loadData_resume t (Response ok status (Some data)))
           = layers (snd (India_processData s data))"
    and "shown (India_loadData_resume t (Response ok status (Some data))) ''feature-count''
           = map_option (\<lambda>_. length fs) (shown s ''feature-count'')"
    and "currentFilters (India_loadData_resume t (Response ok status (Some data))) = currentFilters t"
  using India_processData_layers_cong [OF assms(2,3,4)] map_option_const_cong [OF assms(5)]
  by (simp_all add: India_loadData_success [OF assms(1,2,3)] updateFeatureCount_fields
      India_processData_feature_count India_processData_fields)

lemma FRA_last_response:
  assumes "\<not> truthyOpt (perror data)" and "pfeatures data = Some fs" and "groupable ''fra_type'' fs"
    and "checkboxes t = checkboxes s"
    and "(shown t ''feature-count'' = None) = (shown s ''feature-count'' = None)"
  shows "layers (FRA_loadClaims_resume lower t (Response True status (Some data)))
           = layers (snd (FRA_processClaimsData lower s data))"
    and "shown (FRA_loadClaims_resume lower t (Response True status (Some data))) ''feature-count''
           = map_option (\<lambda>_. length fs) (shown s ''feature-count'')"
    and "currentFilters (FRA_loadClaims_resume lower t (Response True status (Some data)))
           = currentFilters t"
  using FRA_processClaimsData_layers_cong [OF assms(2,3,4)] map_option_const_cong [OF assms(5)]
  by (simp_all add: FRA_loadClaims_success [OF assms(1,2,3)] updateFeatureCount_fields
      FRA_processClaimsData_fields)

text \<open>
  Claim C3, as the code has it. Neither loader cancels a fetch or remembers which request
  is the latest, so each answer is processed when it arrives. After two reloads with
  snapshots \<open>S1\<close> then \<open>S2\<close>, and both answers, the layers and the feature count are
  those of the answer that arrived last, when that answer is a success that is processed
  to the end (no error, features present, no category an inherited name): \<open>S2\<close>'s when
  the answers arrive in the order of the requests, \<open>S1\<close>'s when \<open>S1\<close>'s answer arrives
  after \<open>S2\<close>'s. \<^verbatim>\<open>currentFilters\<close> is \<open>S2\<close> in both cases.
\<close>

theorem reload_last_response_wins:
  assumes "server (if firstArrivesFirst then S2 else S1) = Response True status (Some data)"
    and "\<not> truthyOpt (perror data)" and "pfeatures data = Some fs"
    and "groupable ''fra_type'' fs" and "groupable ''class'' fs"
  shows "layers (FRA_reloadTwice lower server firstArrivesFirst s S1 S2)
           = layers (snd (FRA_processClaimsData lower s data))
       \<and> shown (FRA_reloadTwice lower server firstArrivesFirst s S1 S2) ''feature-count''
           = map_option (\<lambda>_. length fs) (shown s ''feature-count'')
       \<and> currentFilters (FRA_reloadTwice lower server firstArrivesFirst s S1 S2) = S2
       \<and> layers (India_reloadTwice server firstArrivesFirst s S1 S2)
           = layers (snd (India_processData s data))
       \<and> shown (India_reloadTwice server firstArrivesFirst s S1 S2) ''feature-count''
           = map_option (\<lambda>_. length fs) (shown s ''feature-count'')
       \<and> currentFilters (India_reloadTwice server firstArrivesFirst s S1 S2) = S2"
proof -
  let ?s2 = "s\<lparr>currentFilters := S2\<rparr>"
  let ?early = "server (if firstArrivesFirst then S1 else S2)"
  let ?late = "Response True status (Some data)"
  have fra_run: "FRA_reloadTwice lower server firstArrivesFirst s S1 S2
      = FRA_loadClaims_resume lower (FRA_loadClaims_resume lower ?s2 ?early) ?late"
    using assms(1) by (cases firstArrivesFirst) (simp_all add: FRA_reloadTwice_def)
  have india_run: "India_reloadTwice server firstArrivesFirst s S1 S2
      = India_loadData_resume (India_loadData_resume ?s2 ?early) ?late"
    using assms(1) by (cases firstArrivesFirst) (simp_all add: India_reloadTwice_def)
  have fra_mid: "checkboxes (FRA_loadClaims_resume lower ?s2 ?early) = checkboxes s"
    "(shown (FRA_loadClaims_resume lower ?s2 ?early) ''feature-count'' = None)
       = (shown s ''feature-count'' = None)"
    "currentFilters (FRA_loadClaims_resume lower ?s2 ?early) = S2"
    by (simp_all add: FRA_loadClaims_frame)
  have india_mid: "checkboxes (India_loadData_resume ?s2 ?early) = checkboxes s"
    "(shown (India_loadData_resume ?s2 ?early) ''feature-count'' = None)
       = (shown s ''feature-count'' = None)"
    "currentFilters (India_loadData_resume ?s2 ?early) = S2"
    by (simp_all add: India_loadData_frame)
  from FRA_last_response [OF assms(2,3,4) fra_mid(1,2)]
    India_last_response [OF assms(2,3,5) india_mid(1,2)]
    fra_mid(3) india_mid(3)
  show ?thesis
    unfolding fra_run india_run by simp
qed

theorem reload_last_response_wins_witness:
  "exampleDataServer (if False then [(''state'', ''Odisha'')] else [(''state'', ''Telangana'')])
     = Response True 200 (Some \<lparr>perror = None, pfeatures =
         Some [exampleFeature ''fra_type'' ''IFR'', exampleFeature ''fra_type'' ''IFR'']\<rparr>)
   \<and> \<not> truthyOpt (perror \<lparr>perror = None, pfeatures =
         Some [exampleFeature ''fra_type'' ''IFR'', exampleFeature ''fra_type'' ''IFR'']\<rparr>)
   \<and> groupable ''fra_type'' [exampleFeature ''fra_type'' ''IFR'', exampleFeature ''fra_type'' ''IFR'']
   \<and> groupable ''class'' [exampleFeature ''fra_type'' ''IFR'', exampleFeature ''fra_type'' ''IFR'']
   \<and> layers (FRA_reloadTwice asciiLowerCase exampleDataServer False FRA_examplePage
         [(''state'', ''Telangana'')] [(''state'', ''Odisha'')])
       = layers (snd (FRA_processClaimsData asciiLowerCase FRA_examplePage \<lparr>perror = None, pfeatures =
         Some [exampleFeature ''fra_type'' ''IFR'', exampleFeature ''fra_type'' ''IFR'']\<rparr>))
   \<and> shown (FRA_reloadTwice asciiLowerCase exampleDataServer False FRA_examplePage
         [(''state'', ''Telangana'')] [(''state'', ''Odisha'')]) ''feature-count'' = Some 2
   \<and> currentFilters (FRA_reloadTwice asciiLowerCase exampleDataServer False FRA_examplePage
         [(''state'', ''Telangana'')] [(''state'', ''Odisha'')]) = [(''state'', ''Odisha'')]"
proof -
  let ?fs = "[exampleFeature ''fra_type'' ''IFR'', exampleFeature ''fra_type'' ''IFR'']"
  let ?D = "\<lparr>perror = None, pfeatures = Some ?fs\<rparr>"
  have late: "exampleDataServer (if False then [(''state'', ''Odisha'')] else [(''state'', ''Telangana'')])
     = Response True 200 (Some ?D)"
    by (simp add: exampleDataServer_def okPayload_def)
  have noerr: "\<not> truthyOpt (perror ?D)"
    by (simp add: truthyOpt_def)
  have feats: "pfeatures ?D = Some ?fs"
    by simp
  have keys: "propertyKey (getProp ''class'' (exampleFeature ''fra_type'' ''IFR'')) = ''undefined''"
    by (simp add: exampleFeature_def getProp_def propertyKey_def)
  have ok: "groupable ''fra_type'' ?fs" "groupable ''class'' ?fs"
    by (simp_all add: groupable_simps example_keys keys not_inherited_examples)
  have fc: "shown FRA_examplePage ''feature-count'' = Some 0"
    by (simp add: FRA_examplePage_def)
  note wins = reload_last_response_wins [of exampleDataServer False "[(''state'', ''Odisha'')]"
      "[(''state'', ''Telangana'')]" 200 ?D ?fs asciiLowerCase FRA_examplePage]
  from wins [OF late noerr feats ok] late noerr ok fc
  show ?thesis by simp
qed

text \<open>
  Claim C3 as stated fails: reloads for Telangana (two IFR claims) and then Odisha (one
  CFR claim), with the answer for Telangana arriving last. The page ends on the two IFR
  claims of Telangana and no CFR layer, while its filters say Odisha.
\<close>

theorem stale_response_overwrites_counterexample:
  "countOf (FRA_reloadTwice asciiLowerCase exampleDataServer False FRA_examplePage
       [(''state'', ''Telangana'')] [(''state'', ''Odisha'')]) ''CFR'' = 0
   \<and> countOf (FRA_reloadTwice asciiLowerCase exampleDataServer False FRA_examplePage
       [(''state'', ''Telangana'')] [(''state'', ''Odisha'')]) ''IFR'' = 2
   \<and> shown (FRA_reloadTwice asciiLowerCase exampleDataServer False FRA_examplePage
       [(''state'', ''Telangana'')] [(''state'', ''Odisha'')]) ''feature-count'' = Some 2
   \<and> currentFilters (FRA_reloadTwice asciiLowerCase exampleDataServer False FRA_examplePage
       [(''state'', ''Telangana'')] [(''state'', ''Odisha'')]) = [(''state'', ''Odisha'')]
   \<and> countOf (FRA_loadClaims_resume asciiLowerCase FRA_examplePage
       (exampleDataServer [(''state'', ''Odisha'')])) ''CFR'' = 1
   \<and> shown (FRA_loadClaims_resume asciiLowerCase FRA_examplePage
       (exampleDataServer [(''state'', ''Odisha'')])) ''feature-count'' = Some 1"
  by (simp add: FRA_reloadTwice_def example_defs run_defs)

section \<open>Toggling the visibility of a layer\<close>

lemma onlyAttachmentChanged_frame:
  assumes "onlyAttachmentChanged cat s s'"
  shows "dom (layers s') = dom (layers s)"
    and "map_option lfeatures (layers s' k) = map_option lfeatures (layers s k)"
    and "countOf s' k = countOf s k"
    and "shown s' = shown s"
proof -
  from assms have rest: "s'\<lparr>layers := layers s\<rparr> = s"
    and others: "(layers s')(cat := None) = (layers s)(cat := None)"
    and same: "map_option lfeatures (layers s' cat) = map_option lfeatures (layers s cat)"
    by (simp_all add: onlyAttachmentChanged_def)
  have other: "layers s' k = layers s k" if "k \<noteq> cat" for k
    using fun_cong [OF others, of k] that by simp
  show feats: "map_option lfeatures (layers s' k) = map_option lfeatures (layers s k)" for k
    using same other by (cases "k = cat") simp_all
  have "(layers s' k = None) = (layers s k = None)" for k
    using feats [of k] by (cases "layers s' k"; cases "layers s k") simp_all
  then show "dom (layers s') = dom (layers s)"
    by (auto simp: dom_def)
  show "countOf s' k = countOf s k"
    using feats [of k] by (cases "layers s' k"; cases "layers s k") (simp_all add: countOf_def)
  from rest have "shown (s'\<lparr>layers := layers s\<rparr>) = shown s" by simp
  then show "shown s' = shown s" by simp
qed

lemma FRA_loadedPage_IFR:
  "layers FRA_loadedPage ''IFR''
     = Some \<lparr>lfeatures = [exampleFeature ''fra_type'' ''IFR''],
             lstyle = FRA_styleFor ''IFR'', onMap = True\<rparr>"
  by (simp add: FRA_loadedPage_def leaflet_defs geoJSON_def)

lemma FRA_loadedPage_CR: "layers FRA_loadedPage ''CR'' = None"
  by (simp add: FRA_loadedPage_def)

text \<open>
  Claim C6. Setting the visibility of a category twice to the same value gives what
  setting it once gives, for \<^verbatim>\<open>FRAWebGIS.toggleLayer\<close> and for
  \<^verbatim>\<open>LandUseMap.showLayer\<close> and \<^verbatim>\<open>hideLayer\<close>; attaching a layer that is attached, and
  detaching one that is not attached or not registered, returns the state as it was and
  raises nothing.
\<close>

theorem setVisibility_idempotent:
  "FRA_toggleLayer cat visible (snd (FRA_toggleLayer cat visible s)) = FRA_toggleLayer cat visible s
   \<and> showLayer cat (snd (showLayer cat s)) = showLayer cat s
   \<and> hideLayer cat (snd (hideLayer cat s)) = hideLayer cat s
   \<and> (layers s cat = Some l \<and> onMap l \<longrightarrow>
        FRA_toggleLayer cat True s = (None, s) \<and> showLayer cat s = (None, s))
   \<and> (layers s cat = None \<or> (layers s cat = Some l \<and> \<not> onMap l) \<longrightarrow>
        FRA_toggleLayer cat False s = (None, s) \<and> hideLayer cat s = (None, s))"
  by (auto simp: toggle_defs jsGet_def leaflet_defs split: option.splits)

theorem setVisibility_idempotent_witness:
  "layers FRA_loadedPage ''IFR''
     = Some \<lparr>lfeatures = [exampleFeature ''fra_type'' ''IFR''],
             lstyle = FRA_styleFor ''IFR'', onMap = True\<rparr>
   \<and> FRA_toggleLayer ''IFR'' True FRA_loadedPage = (None, FRA_loadedPage)
   \<and> showLayer ''IFR'' FRA_loadedPage = (None, FRA_loadedPage)
   \<and> layers FRA_loadedPage ''CR'' = None
   \<and> FRA_toggleLayer ''CR'' False FRA_loadedPage = (None, FRA_loadedPage)
   \<and> hideLayer ''CR'' FRA_loadedPage = (None, FRA_loadedPage)
   \<and> FRA_toggleLayer ''IFR'' False (snd (FRA_toggleLayer ''IFR'' False FRA_loadedPage))
       = FRA_toggleLayer ''IFR'' False FRA_loadedPage"
  using setVisibility_idempotent [of "''IFR''" False FRA_loadedPage
      "\<lparr>lfeatures = [exampleFeature ''fra_type'' ''IFR''],
        lstyle = FRA_styleFor ''IFR'', onMap = True\<rparr>"]
    setVisibility_idempotent [of "''CR''" False FRA_loadedPage undefined]
    FRA_loadedPage_IFR FRA_loadedPage_CR
  by simp

text \<open>
  For a name with no registered layer the toggles return the state as it was and raise
  nothing, when they detach, or when the name is not an inherited one.
\<close>

lemma toggle_unregistered_name:
  assumes "layers s cat = None" and "\<not> inherited cat \<or> \<not> visible"
  shows "FRA_toggleLayer cat visible s = (None, s)"
    and "India_toggleLayer cat visible s = (None, s)"
    and "hideLayer cat s = (None, s)"
    and "\<not> inherited cat \<Longrightarrow> showLayer cat s = (None, s)"
  using assms by (auto simp: toggle_defs jsGet_def)

text \<open>
  Claim C7 at a name inherited from \<^verbatim>\<open>Object.prototype\<close>. \<^verbatim>\<open>/api/layers\<close> answers
  with one layer under the key \<^verbatim>\<open>constructor\<close>; no layer is registered for it, and
  checking its box calls \<^verbatim>\<open>toggleLayer('constructor', true)\<close>, which passes
  \<^verbatim>\<open>if (layer)\<close> with the inherited value and raises in \<^verbatim>\<open>map.addLayer\<close>. The
  toggle of \<^verbatim>\<open>FRAWebGIS\<close> and \<^verbatim>\<open>showLayer\<close> do the same.
\<close>

theorem toggle_inherited_name_raises:
  "layers (India_loadLayers_resume India_blankPage
        (Response True 200 (Some [(''constructor'', \<lparr>lname = ''Other'', lvisible = False\<rparr>)])))
      ''constructor'' = None
   \<and> India_toggleLayer ''constructor'' True
        (India_loadLayers_resume India_blankPage
          (Response True 200 (Some [(''constructor'', \<lparr>lname = ''Other'', lvisible = False\<rparr>)])))
       = (Some NotALayer,
          India_loadLayers_resume India_blankPage
            (Response True 200 (Some [(''constructor'', \<lparr>lname = ''Other'', lvisible = False\<rparr>)])))
   \<and> layers FRA_examplePage ''constructor'' = None
   \<and> FRA_toggleLayer ''constructor'' True FRA_examplePage = (Some NotALayer, FRA_examplePage)
   \<and> layers LandUse_examplePage ''toString'' = None
   \<and> showLayer ''toString'' LandUse_examplePage = (Some NotALayer, LandUse_examplePage)"
  by (simp add: toggle_defs jsGet_def inherited_def objectPrototypeNames_def
      India_loadLayers_resume_def clearLayerControls_def addLayerControl_def India_blankPage_def
      FRA_examplePage_def LandUse_examplePage_def)

text \<open>
  Claim C9. A visibility toggle changes at most the attachment of the layer of its own
  category. The categories with a registered layer, the features of every layer, the
  number of features of every category and the displayed counters are those of the state
  before, for each of the four toggles.
\<close>

theorem toggle_changes_only_attachment:
  assumes "s' \<in> {snd (FRA_toggleLayer cat visible s), snd (India_toggleLayer cat visible s),
                  snd (showLayer cat s), snd (hideLayer cat s)}"
  shows "onlyAttachmentChanged cat s s'
       \<and> dom (layers s') = dom (layers s)
       \<and> map_option lfeatures (layers s' k) = map_option lfeatures (layers s k)
       \<and> countOf s' k = countOf s k
       \<and> shown s' = shown s"
proof -
  from assms have only: "onlyAttachmentChanged cat s s'"
    by (auto simp: onlyAttachmentChanged_def toggle_defs jsGet_def leaflet_defs split: option.splits)
  from only onlyAttachmentChanged_frame [OF only] show ?thesis by simp
qed

theorem toggle_changes_only_attachment_witness:
  "snd (FRA_toggleLayer ''IFR'' False FRA_loadedPage)
     \<in> {snd (FRA_toggleLayer ''IFR'' False FRA_loadedPage),
        snd (India_toggleLayer ''IFR'' False FRA_loadedPage),
        snd (showLayer ''IFR'' FRA_loadedPage), snd (hideLayer ''IFR'' FRA_loadedPage)}
   \<and> map_option onMap (layers (snd (FRA_toggleLayer ''IFR'' False FRA_loadedPage)) ''IFR'') = Some False
   \<and> map_option onMap (layers FRA_loadedPage ''IFR'') = Some True
   \<and> countOf (snd (FRA_toggleLayer ''IFR'' False FRA_loadedPage)) ''IFR'' = 1
   \<and> dom (layers (snd (FRA_toggleLayer ''IFR'' False FRA_loadedPage))) = {''IFR''}
   \<and> shown (snd (FRA_toggleLayer ''IFR'' False FRA_loadedPage)) ''feature-count'' = Some 0"
proof -
  have m: "snd (FRA_toggleLayer ''IFR'' False FRA_loadedPage)
     \<in> {snd (FRA_toggleLayer ''IFR'' False FRA_loadedPage),
        snd (India_toggleLayer ''IFR'' False FRA_loadedPage),
        snd (showLayer ''IFR'' FRA_loadedPage), snd (hideLayer ''IFR'' FRA_loadedPage)}"
    by simp
  have off: "map_option onMap (layers (snd (FRA_toggleLayer ''IFR'' False FRA_loadedPage)) ''IFR'') = Some False"
    by (simp add: FRA_toggleLayer_def jsGet_def FRA_loadedPage_IFR leaflet_defs)
  have before: "countOf FRA_loadedPage ''IFR'' = 1" "dom (layers FRA_loadedPage) = {''IFR''}"
    "shown FRA_loadedPage ''feature-count'' = Some 0"
    by (simp_all add: countOf_def FRA_loadedPage_IFR) (simp_all add: FRA_loadedPage_def FRA_examplePage_def)
  from toggle_changes_only_attachment [OF m, of "''IFR''"] m off before FRA_loadedPage_IFR
  show ?thesis by simp
qed

section \<open>Claim details are fetched on every call\<close>

text \<open>
  Claim C4, as the code has it. \<^verbatim>\<open>showClaimDetails\<close> keeps no cache: every call
  issues one fetch of \<^verbatim>\<open>/api/claim/<id>\<close>, so two calls for one id issue two, whatever
  the first one returned. A call that succeeds displays the record just fetched; a call
  that fails (the fetch rejects, the body is not JSON, or the record carries a truthy
  \<^verbatim>\<open>error\<close>) leaves the displayed record as it was and reports once, and the next call
  fetches again.
\<close>

theorem showClaimDetails_always_fetches:
  "requests (showClaimDetails server claimId v) = requests v @ [''/api/claim/'' @ claimId]
   \<and> requests (showClaimDetails server' claimId (showClaimDetails server claimId v))
       = requests v @ [''/api/claim/'' @ claimId, ''/api/claim/'' @ claimId]
   \<and> (server (''/api/claim/'' @ claimId) = Response ok status (Some d)
        \<and> \<not> truthyOpt (map_of d ''error'') \<longrightarrow>
          details (showClaimDetails server claimId v) = Some d
          \<and> modalOpen (showClaimDetails server claimId v)
          \<and> reported (showClaimDetails server claimId v) = reported v)
   \<and> (server (''/api/claim/'' @ claimId) = Rejected
        \<or> server (''/api/claim/'' @ claimId) = Response ok status None
        \<or> (server (''/api/claim/'' @ claimId) = Response ok status (Some d)
            \<and> truthyOpt (map_of d ''error'')) \<longrightarrow>
          details (showClaimDetails server claimId v) = details v
          \<and> modalOpen (showClaimDetails server claimId v) = modalOpen v
          \<and> length (reported (showClaimDetails server claimId v)) = Suc (length (reported v)))"
proof -
  have one: "requests (showClaimDetails srv claimId w) = requests w @ [''/api/claim/'' @ claimId]"
    for srv w
    by (simp add: showClaimDetails_def Let_def split: fetched.splits option.splits)
  have two: "requests (showClaimDetails server' claimId (showClaimDetails server claimId v))
       = requests v @ [''/api/claim/'' @ claimId, ''/api/claim/'' @ claimId]"
    by (simp add: one)
  have good: "server (''/api/claim/'' @ claimId) = Response ok status (Some d)
        \<and> \<not> truthyOpt (map_of d ''error'') \<longrightarrow>
          details (showClaimDetails server claimId v) = Some d
          \<and> modalOpen (showClaimDetails server claimId v)
          \<and> reported (showClaimDetails server claimId v) = reported v"
    by (auto simp: showClaimDetails_def Let_def truthyOpt_def split: option.splits)
  have bad: "server (''/api/claim/'' @ claimId) = Rejected
        \<or> server (''/api/claim/'' @ claimId) = Response ok status None
        \<or> (server (''/api/claim/'' @ claimId) = Response ok status (Some d)
            \<and> truthyOpt (map_of d ''error'') ) \<longrightarrow>
          details (showClaimDetails server claimId v) = details v
          \<and> modalOpen (showClaimDetails server claimId v) = modalOpen v
          \<and> length (reported (showClaimDetails server claimId v)) = Suc (length (reported v))"
    by (auto simp: showClaimDetails_def Let_def truthyOpt_def split: option.splits)
  from one two good bad show ?thesis by blast
qed

theorem showClaimDetails_always_fetches_witness:
  "exampleClaimServer ''/api/claim/FRA001''
     = Response True 200 (Some [(''claim_id'', ''FRA001''), (''fra_type'', ''IFR'')])
   \<and> \<not> truthyOpt (map_of [(''claim_id'', ''FRA001''), (''fra_type'', ''IFR'')] ''error'')
   \<and> details (showClaimDetails exampleClaimServer ''FRA001'' emptyView)
       = Some [(''claim_id'', ''FRA001''), (''fra_type'', ''IFR'')]
   \<and> requests (showClaimDetails exampleClaimServer ''FRA001'' emptyView) = [''/api/claim/FRA001'']
   \<and> failingClaimServer ''/api/claim/FRA001'' = Rejected
   \<and> details (showClaimDetails failingClaimServer ''FRA001'' emptyView) = None
   \<and> length (reported (showClaimDetails failingClaimServer ''FRA001'' emptyView)) = 1
   \<and> requests (showClaimDetails exampleClaimServer ''FRA001''
        (showClaimDetails failingClaimServer ''FRA001'' emptyView))
       = [''/api/claim/FRA001'', ''/api/claim/FRA001'']"
proof -
  have ok: "exampleClaimServer (''/api/claim/'' @ ''FRA001'')
      = Response True 200 (Some [(''claim_id'', ''FRA001''), (''fra_type'', ''IFR'')])"
    "\<not> truthyOpt (map_of [(''claim_id'', ''FRA001''), (''fra_type'', ''IFR'')] ''error'')"
    by (simp_all add: exampleClaimServer_def truthyOpt_def)
  have ko: "failingClaimServer (''/api/claim/'' @ ''FRA001'') = Rejected"
    by (simp add: failingClaimServer_def)
  have init: "requests emptyView = []" "details emptyView = None" "reported emptyView = []"
    by (simp_all add: emptyView_def)
  from showClaimDetails_always_fetches [of exampleClaimServer "''FRA001''" emptyView
        exampleClaimServer True 200 "[(''claim_id'', ''FRA001''), (''fra_type'', ''IFR'')]"]
    showClaimDetails_always_fetches [of failingClaimServer "''FRA001''" emptyView
        exampleClaimServer True 200 "[]"]
    ok ko init
  show ?thesis by simp
qed

text \<open>
  Claim C4 as stated fails: two successful calls for the claim \<^verbatim>\<open>FRA001\<close>, one after the
  other, issue two fetches, the second after the first one displayed its record.
\<close>

theorem showClaimDetails_twice_counterexample:
  "requests (showClaimDetails exampleClaimServer ''FRA001''
      (showClaimDetails exampleClaimServer ''FRA001'' emptyView))
     = [''/api/claim/FRA001'', ''/api/claim/FRA001'']
   \<and> details (showClaimDetails exampleClaimServer ''FRA001'' emptyView)
     = Some [(''claim_id'', ''FRA001''), (''fra_type'', ''IFR'')]"
  by (simp add: showClaimDetails_def exampleClaimServer_def emptyView_def Let_def)

end
